theory Spec2Isabelle
  imports Main "HOL-Library.Word"
begin

section \<open>Data model of the two CWU50 panel drivers\<close>

text \<open>
  The repository holds two drivers for the same panel:
  \<^verbatim>\<open>panel-clockwork-cwu50.c\<close> (definitions prefixed \<open>clockwork_\<close> below) and
  \<^verbatim>\<open>panel-cw-cwu50.c\<close> (prefixed \<open>cw_\<close>). Both declare
  \<^verbatim>\<open>struct cwu50_init_cmd { u8 data[CWU50_INIT_CMD_LEN]; }\<close> with
  \<^verbatim>\<open>CWU50_INIT_CMD_LEN\<close> equal to 2, so an entry is a pair of bytes.
\<close>

type_synonym u8 = "8 word"

type_synonym cwu50_init_cmd = "u8 \<times> u8"

definition CWU50_INIT_CMD_LEN :: nat where
  "CWU50_INIT_CMD_LEN = 2"

definition cmd_data :: "cwu50_init_cmd \<Rightarrow> u8 list" where
  "cmd_data cmd = take CWU50_INIT_CMD_LEN [fst cmd, snd cmd]"

text \<open>
  The kernel objects the handle points to are opaque to the drivers: each is modelled
  by an identifier.
\<close>

datatype mipi_dsi_device = Dsi nat

datatype regulator = Regulator nat

datatype gpio_desc = Gpio nat

datatype drm_panel = Drm_panel nat

text \<open>
  \<^verbatim>\<open>struct cwu50_panel\<close>. The first five fields are common to both files; the
  clockwork driver adds \<^verbatim>\<open>orientation\<close> (an enum, kept as its integer value),
  the cw driver adds \<^verbatim>\<open>bool prepared\<close>.
\<close>

record cwu50_panel_common =
  panel :: drm_panel
  dsi :: mipi_dsi_device
  vci :: regulator
  iovcc :: regulator
  reset_gpio :: gpio_desc

record clockwork_cwu50_panel = cwu50_panel_common +
  orientation :: int

record cw_cwu50_panel = cwu50_panel_common +
  prepared :: bool

section \<open>Hardware effects\<close>

text \<open>
  The argument of \<^verbatim>\<open>mipi_dsi_dcs_set_tear_on\<close>, from
  \<^verbatim>\<open>include/drm/drm_mipi_dsi.h\<close> (not among the source files; the drivers only
  use the first value).
\<close>

datatype mipi_dsi_dcs_tear_mode = MIPI_DSI_DCS_TEAR_MODE_VBLANK | MIPI_DSI_DCS_TEAR_MODE_VHBLANK

text \<open>
  Every call a driver makes into the regulator, GPIO, delay and DSI layers is one
  operation. Delays keep their unit: \<open>Usleep_range\<close> is in microseconds,
  \<open>Msleep\<close> in milliseconds.
\<close>

datatype hw_op =
    Regulator_enable regulator
  | Regulator_disable regulator
  | Gpiod_set_value_cansleep gpio_desc int
  | Usleep_range nat nat
  | Msleep nat
  | Dcs_write_buffer mipi_dsi_device "u8 list"
  | Dcs_exit_sleep_mode mipi_dsi_device
  | Dcs_set_display_on mipi_dsi_device
  | Dcs_set_tear_on mipi_dsi_device mipi_dsi_dcs_tear_mode
  | Dcs_set_display_off mipi_dsi_device
  | Dcs_enter_sleep_mode mipi_dsi_device

text \<open>
  An event is an operation with the C return value the driver received (0 is recorded
  for the \<^verbatim>\<open>void\<close> functions). Return values are never used in arithmetic,
  only compared with 0, so they are plain integers. The environment gives the return
  value of the next fallible call from the history of events so far.
\<close>

type_synonym hw_event = "hw_op \<times> int"

type_synonym env = "hw_event list \<Rightarrow> hw_op \<Rightarrow> int"

text \<open>
  A logging call of a driver: the macro called, its format string (without the final
  newline) and its arguments. \<^verbatim>\<open>dev_err\<close> always prints its message;
  \<^verbatim>\<open>dev_err_ratelimited\<close> hands it to the kernel's rate limiter, which may drop
  it, so such an entry says that the call was made, not that the line was printed.
\<close>

datatype log_call =
    Dev_err string "int list"
  | Dev_err_ratelimited string "int list"

record 'h world =
  ctx :: 'h
  trace :: "hw_event list"
  klog :: "log_call list"

definition hw_call :: "env \<Rightarrow> hw_op \<Rightarrow> 'h world \<Rightarrow> int \<times> 'h world" where
  "hw_call env c s = (let r = env (trace s) c in (r, s\<lparr>trace := trace s @ [(c, r)]\<rparr>))"

definition hw_void :: "hw_op \<Rightarrow> 'h world \<Rightarrow> 'h world" where
  "hw_void c s = s\<lparr>trace := trace s @ [(c, 0)]\<rparr>"

definition regulator_enable :: "env \<Rightarrow> regulator \<Rightarrow> 'h world \<Rightarrow> int \<times> 'h world" where
  "regulator_enable env r = hw_call env (Regulator_enable r)"

definition regulator_disable :: "env \<Rightarrow> regulator \<Rightarrow> 'h world \<Rightarrow> int \<times> 'h world" where
  "regulator_disable env r = hw_call env (Regulator_disable r)"

definition gpiod_set_value_cansleep :: "gpio_desc \<Rightarrow> int \<Rightarrow> 'h world \<Rightarrow> 'h world" where
  "gpiod_set_value_cansleep g v = hw_void (Gpiod_set_value_cansleep g v)"

definition usleep_range :: "nat \<Rightarrow> nat \<Rightarrow> 'h world \<Rightarrow> 'h world" where
  "usleep_range lo hi = hw_void (Usleep_range lo hi)"

definition msleep :: "nat \<Rightarrow> 'h world \<Rightarrow> 'h world" where
  "msleep ms = hw_void (Msleep ms)"

definition mipi_dsi_dcs_write_buffer ::
  "env \<Rightarrow> mipi_dsi_device \<Rightarrow> u8 list \<Rightarrow> 'h world \<Rightarrow> int \<times> 'h world" where
  "mipi_dsi_dcs_write_buffer env d bytes = hw_call env (Dcs_write_buffer d bytes)"

definition mipi_dsi_dcs_exit_sleep_mode :: "env \<Rightarrow> mipi_dsi_device \<Rightarrow> 'h world \<Rightarrow> int \<times> 'h world" where
  "mipi_dsi_dcs_exit_sleep_mode env d = hw_call env (Dcs_exit_sleep_mode d)"

definition mipi_dsi_dcs_set_display_on :: "env \<Rightarrow> mipi_dsi_device \<Rightarrow> 'h world \<Rightarrow> int \<times> 'h world" where
  "mipi_dsi_dcs_set_display_on env d = hw_call env (Dcs_set_display_on d)"

definition mipi_dsi_dcs_set_tear_on ::
  "env \<Rightarrow> mipi_dsi_device \<Rightarrow> mipi_dsi_dcs_tear_mode \<Rightarrow> 'h world \<Rightarrow> int \<times> 'h world" where
  "mipi_dsi_dcs_set_tear_on env d m = hw_call env (Dcs_set_tear_on d m)"

definition mipi_dsi_dcs_set_display_off :: "env \<Rightarrow> mipi_dsi_device \<Rightarrow> 'h world \<Rightarrow> int \<times> 'h world" where
  "mipi_dsi_dcs_set_display_off env d = hw_call env (Dcs_set_display_off d)"

definition mipi_dsi_dcs_enter_sleep_mode :: "env \<Rightarrow> mipi_dsi_device \<Rightarrow> 'h world \<Rightarrow> int \<times> 'h world" where
  "mipi_dsi_dcs_enter_sleep_mode env d = hw_call env (Dcs_enter_sleep_mode d)"

text \<open>
  \<^verbatim>\<open>dev_err\<close> and \<^verbatim>\<open>dev_err_ratelimited\<close> record their call in \<open>klog\<close>;
  whether the rate limiter lets a rate-limited message through is outside the drivers
  and is not decided here. \<^verbatim>\<open>dev_dbg\<close> lines are left out. Logging is no
  hardware effect and never enters the trace.
\<close>

definition dev_err :: "string \<Rightarrow> int list \<Rightarrow> 'h world \<Rightarrow> 'h world" where
  "dev_err fmt args s = s\<lparr>klog := klog s @ [Dev_err fmt args]\<rparr>"

definition dev_err_ratelimited :: "string \<Rightarrow> int list \<Rightarrow> 'h world \<Rightarrow> 'h world" where
  "dev_err_ratelimited fmt args s = s\<lparr>klog := klog s @ [Dev_err_ratelimited fmt args]\<rparr>"

section \<open>The initialization command tables\<close>

definition clockwork_cwu50_panel_init_cmds :: "cwu50_init_cmd list" where
  "clockwork_cwu50_panel_init_cmds =
    [
     (0xE0, 0x00), (0xE1, 0x93), (0xE2, 0x65), (0xE3, 0xF8), (0x70, 0x20), (0x71, 0x13),
     (0x72, 0x06), (0x75, 0x03), (0xE0, 0x01), (0x00, 0x00), (0x01, 0x47), (0x03, 0x00),
     (0x04, 0x4D), (0x0C, 0x64), (0x17, 0x00), (0x18, 0xBF), (0x19, 0x00), (0x1A, 0x00),
     (0x1B, 0xBF), (0x1C, 0x00), (0x1F, 0x7E), (0x20, 0x24), (0x21, 0x24), (0x22, 0x4E),
     (0x24, 0xFE), (0x37, 0x09), (0x38, 0x04), (0x3C, 0x76), (0x3D, 0xFF), (0x3E, 0xFF),
     (0x3F, 0x7F), (0x40, 0x04), (0x41, 0xA0), (0x44, 0x11), (0x55, 0x02), (0x56, 0x01),
     (0x57, 0x49), (0x58, 0x09), (0x59, 0x2A), (0x5A, 0x1A), (0x5B, 0x1A), (0x5D, 0x78),
     (0x5E, 0x6E), (0x5F, 0x66), (0x60, 0x5E), (0x61, 0x60), (0x62, 0x54), (0x63, 0x5C),
     (0x64, 0x47), (0x65, 0x5F), (0x66, 0x5D), (0x67, 0x5B), (0x68, 0x76), (0x69, 0x61),
     (0x6A, 0x63), (0x6B, 0x50), (0x6C, 0x45), (0x6D, 0x34), (0x6E, 0x1C), (0x6F, 0x07),
     (0x70, 0x78), (0x71, 0x6E), (0x72, 0x66), (0x73, 0x5E), (0x74, 0x60), (0x75, 0x54),
     (0x76, 0x5C), (0x77, 0x47), (0x78, 0x5F), (0x79, 0x5D), (0x7A, 0x5B), (0x7B, 0x76),
     (0x7C, 0x61), (0x7D, 0x63), (0x7E, 0x50), (0x7F, 0x45), (0x80, 0x34), (0x81, 0x1C),
     (0x82, 0x07), (0xE0, 0x02), (0x00, 0x44), (0x01, 0x46), (0x02, 0x48), (0x03, 0x4A),
     (0x04, 0x40), (0x05, 0x42), (0x06, 0x1F), (0x07, 0x1F), (0x08, 0x1F), (0x09, 0x1F),
     (0x0A, 0x1F), (0x0B, 0x1F), (0x0C, 0x1F), (0x0D, 0x1F), (0x0E, 0x1F), (0x0F, 0x1F),
     (0x10, 0x1F), (0x11, 0x1F), (0x12, 0x1F), (0x13, 0x1F), (0x14, 0x1E), (0x15, 0x1F),
     (0x16, 0x45), (0x17, 0x47), (0x18, 0x49), (0x19, 0x4B), (0x1A, 0x41), (0x1B, 0x43),
     (0x1C, 0x1F), (0x1D, 0x1F), (0x1E, 0x1F), (0x1F, 0x1F), (0x20, 0x1F), (0x21, 0x1F),
     (0x22, 0x1F), (0x23, 0x1F), (0x24, 0x1F), (0x25, 0x1F), (0x26, 0x1F), (0x27, 0x1F),
     (0x28, 0x1F), (0x29, 0x1F), (0x2A, 0x1E), (0x2B, 0x1F), (0x2C, 0x0B), (0x2D, 0x09),
     (0x2E, 0x07), (0x2F, 0x05), (0x30, 0x03), (0x31, 0x01), (0x32, 0x1F), (0x33, 0x1F),
     (0x34, 0x1F), (0x35, 0x1F), (0x36, 0x1F), (0x37, 0x1F), (0x38, 0x1F), (0x39, 0x1F),
     (0x3A, 0x1F), (0x3B, 0x1F), (0x3C, 0x1F), (0x3D, 0x1F), (0x3E, 0x1F), (0x3F, 0x1F),
     (0x40, 0x1F), (0x41, 0x1E), (0x42, 0x0A), (0x43, 0x08), (0x44, 0x06), (0x45, 0x04),
     (0x46, 0x02), (0x47, 0x00), (0x48, 0x1F), (0x49, 0x1F), (0x4A, 0x1F), (0x4B, 0x1F),
     (0x4C, 0x1F), (0x4D, 0x1F), (0x4E, 0x1F), (0x4F, 0x1F), (0x50, 0x1F), (0x51, 0x1F),
     (0x52, 0x1F), (0x53, 0x1F), (0x54, 0x1F), (0x55, 0x1F), (0x56, 0x1F), (0x57, 0x1E),
     (0x58, 0x40), (0x59, 0x00), (0x5A, 0x00), (0x5B, 0x30), (0x5C, 0x02), (0x5D, 0x40),
     (0x5E, 0x01), (0x5F, 0x02), (0x60, 0x00), (0x61, 0x01), (0x62, 0x02), (0x63, 0x65),
     (0x64, 0x66), (0x65, 0x00), (0x66, 0x00), (0x67, 0x74), (0x68, 0x06), (0x69, 0x65),
     (0x6A, 0x66), (0x6B, 0x10), (0x6C, 0x00), (0x6D, 0x04), (0x6E, 0x04), (0x6F, 0x88),
     (0x70, 0x00), (0x71, 0x00), (0x72, 0x06), (0x73, 0x7B), (0x74, 0x00), (0x75, 0x87),
     (0x76, 0x00), (0x77, 0x5D), (0x78, 0x17), (0x79, 0x1F), (0x7A, 0x00), (0x7B, 0x00),
     (0x7C, 0x00), (0x7D, 0x03), (0x7E, 0x7B), (0xE0, 0x04), (0x09, 0x10), (0xE0, 0x00),
     (0xE6, 0x02), (0xE7, 0x02)
    ]"

definition cw_cwu50_panel_init_cmds :: "cwu50_init_cmd list" where
  "cw_cwu50_panel_init_cmds =
    [
     (0xE0, 0x00), (0xE1, 0x93), (0xE2, 0x65), (0xE3, 0xF8), (0x70, 0x20), (0x71, 0x13),
     (0x72, 0x06), (0x75, 0x03), (0xE0, 0x01), (0x00, 0x00), (0x01, 0x47), (0x03, 0x00),
     (0x04, 0x4D), (0x0C, 0x64), (0x17, 0x00), (0x18, 0xBF), (0x19, 0x00), (0x1A, 0x00),
     (0x1B, 0xBF), (0x1C, 0x00), (0x1F, 0x7E), (0x20, 0x24), (0x21, 0x24), (0x22, 0x4E),
     (0x24, 0xFE), (0x37, 0x09), (0x38, 0x04), (0x3C, 0x76), (0x3D, 0xFF), (0x3E, 0xFF),
     (0x3F, 0x7F), (0x40, 0x04), (0x41, 0xA0), (0x44, 0x11), (0x55, 0x02), (0x56, 0x01),
     (0x57, 0x49), (0x58, 0x09), (0x59, 0x2A), (0x5A, 0x1A), (0x5B, 0x1A), (0x5D, 0x78),
     (0x5E, 0x6E), (0x5F, 0x66), (0x60, 0x5E), (0x61, 0x60), (0x62, 0x54), (0x63, 0x5C),
     (0x64, 0x47), (0x65, 0x5F), (0x66, 0x5D), (0x67, 0x5B), (0x68, 0x76), (0x69, 0x61),
     (0x6A, 0x63), (0x6B, 0x50), (0x6C, 0x45), (0x6D, 0x34), (0x6E, 0x1C), (0x6F, 0x07),
     (0x70, 0x78), (0x71, 0x6E), (0x72, 0x66), (0x73, 0x5E), (0x74, 0x60), (0x75, 0x54),
     (0x76, 0x5C), (0x77, 0x47), (0x78, 0x5F), (0x79, 0x5D), (0x7A, 0x5B), (0x7B, 0x76),
     (0x7C, 0x61), (0x7D, 0x63), (0x7E, 0x50), (0x7F, 0x45), (0x80, 0x34), (0x81, 0x1C),
     (0x82, 0x07), (0xE0, 0x02), (0x00, 0x44), (0x01, 0x46), (0x02, 0x48), (0x03, 0x4A),
     (0x04, 0x40), (0x05, 0x42), (0x06, 0x1F), (0x07, 0x1F), (0x08, 0x1F), (0x09, 0x1F),
     (0x0A, 0x1F), (0x0B, 0x1F), (0x0C, 0x1F), (0x0D, 0x1F), (0x0E, 0x1F), (0x0F, 0x1F),
     (0x10, 0x1F), (0x11, 0x1F), (0x12, 0x1F), (0x13, 0x1F), (0x14, 0x1E), (0x15, 0x1F),
     (0x16, 0x45), (0x17, 0x47), (0x18, 0x49), (0x19, 0x4B), (0x1A, 0x41), (0x1B, 0x43),
     (0x1C, 0x1F), (0x1D, 0x1F), (0x1E, 0x1F), (0x1F, 0x1F), (0x20, 0x1F), (0x21, 0x1F),
     (0x22, 0x1F), (0x23, 0x1F), (0x24, 0x1F), (0x25, 0x1F), (0x26, 0x1F), (0x27, 0x1F),
     (0x28, 0x1F), (0x29, 0x1F), (0x2A, 0x1E), (0x2B, 0x1F), (0x2C, 0x0B), (0x2D, 0x09),
     (0x2E, 0x07), (0x2F, 0x05), (0x30, 0x03), (0x31, 0x01), (0x32, 0x1F), (0x33, 0x1F),
     (0x34, 0x1F), (0x35, 0x1F), (0x36, 0x1F), (0x37, 0x1F), (0x38, 0x1F), (0x39, 0x1F),
     (0x3A, 0x1F), (0x3B, 0x1F), (0x3C, 0x1F), (0x3D, 0x1F), (0x3E, 0x1F), (0x3F, 0x1F),
     (0x40, 0x1F), (0x41, 0x1E), (0x42, 0x0A), (0x43, 0x08), (0x44, 0x06), (0x45, 0x04),
     (0x46, 0x02), (0x47, 0x00), (0x48, 0x1F), (0x49, 0x1F), (0x4A, 0x1F), (0x4B, 0x1F),
     (0x4C, 0x1F), (0x4D, 0x1F), (0x4E, 0x1F), (0x4F, 0x1F), (0x50, 0x1F), (0x51, 0x1F),
     (0x52, 0x1F), (0x53, 0x1F), (0x54, 0x1F), (0x55, 0x1F), (0x56, 0x1F), (0x57, 0x1E),
     (0x58, 0x40), (0x59, 0x00), (0x5A, 0x00), (0x5B, 0x30), (0x5C, 0x02), (0x5D, 0x40),
     (0x5E, 0x01), (0x5F, 0x02), (0x60, 0x00), (0x61, 0x01), (0x62, 0x02), (0x63, 0x65),
     (0x64, 0x66), (0x65, 0x00), (0x66, 0x00), (0x67, 0x74), (0x68, 0x06), (0x69, 0x65),
     (0x6A, 0x66), (0x6B, 0x10), (0x6C, 0x00), (0x6D, 0x04), (0x6E, 0x04), (0x6F, 0x88),
     (0x70, 0x00), (0x71, 0x00), (0x72, 0x06), (0x73, 0x7B), (0x74, 0x00), (0x75, 0x87),
     (0x76, 0x00), (0x77, 0x5D), (0x78, 0x17), (0x79, 0x1F), (0x7A, 0x00), (0x7B, 0x00),
     (0x7C, 0x00), (0x7D, 0x03), (0x7E, 0x7B), (0xE0, 0x04), (0x09, 0x10), (0xE0, 0x00),
     (0xE6, 0x02), (0xE7, 0x02)
    ]"

section \<open>The command transmitter\<close>

text \<open>
  The \<^verbatim>\<open>for\<close> loop of \<^verbatim>\<open>cwu50_init_sequence\<close>, which is the same text in
  both files, over the entries not yet sent. \<open>Some ret\<close> is the
  \<^verbatim>\<open>return ret\<close> inside the loop, \<open>None\<close> is falling out of the loop.
  The logged argument is \<^verbatim>\<open>cmd->data[0]\<close>, the register byte, promoted to
  \<^verbatim>\<open>int\<close>.

  The C functions read the global array \<^verbatim>\<open>cwu50_panel_init_cmds\<close>. Here the
  table is an argument \<open>tbl\<close> of the loop, of \<^verbatim>\<open>cwu50_init_sequence\<close> and of
  \<^verbatim>\<open>cwu50_prepare\<close>, so that a property can be stated for every table; the
  drivers are the instances at \<open>clockwork_cwu50_panel_init_cmds\<close> and
  \<open>cw_cwu50_panel_init_cmds\<close>. Every function takes the environment and the state
  and returns the C return value with the new state.
\<close>

fun cwu50_init_loop ::
  "env \<Rightarrow> mipi_dsi_device \<Rightarrow> cwu50_init_cmd list \<Rightarrow> 'h world \<Rightarrow> int option \<times> 'h world" where
  "cwu50_init_loop env d [] s = (None, s)"
| "cwu50_init_loop env d (cmd # cmds) s =
     (case mipi_dsi_dcs_write_buffer env d (cmd_data cmd) s of
        (ret, s1) \<Rightarrow>
          if ret < 0
          then (Some ret,
                dev_err_ratelimited ''sending command %#02x failed: %d'' [uint (fst cmd), ret] s1)
          else cwu50_init_loop env d cmds s1)"

section \<open>panel-clockwork-cwu50.c\<close>

definition clockwork_cwu50_reset :: "clockwork_cwu50_panel world \<Rightarrow> clockwork_cwu50_panel world" where
  "clockwork_cwu50_reset s0 =
     (let s1 = gpiod_set_value_cansleep (reset_gpio (ctx s0)) 1 s0;
          s2 = usleep_range 5000 10000 s1;
          s3 = gpiod_set_value_cansleep (reset_gpio (ctx s2)) 0 s2;
          s4 = usleep_range 1000 10000 s3;
          s5 = gpiod_set_value_cansleep (reset_gpio (ctx s4)) 1 s4
      in usleep_range 10000 20000 s5)"

definition clockwork_cwu50_init_sequence ::
  "cwu50_init_cmd list \<Rightarrow> env \<Rightarrow> clockwork_cwu50_panel world \<Rightarrow> int \<times> clockwork_cwu50_panel world" where
  "clockwork_cwu50_init_sequence tbl env s =
     (case cwu50_init_loop env (dsi (ctx s)) tbl s of
        (Some ret, s1) \<Rightarrow> (ret, s1)
      | (None, s1) \<Rightarrow> (0, s1))"

text \<open>The two \<^verbatim>\<open>goto\<close> labels at the end of \<^verbatim>\<open>cwu50_prepare\<close>.\<close>

definition clockwork_prepare_disable_iovcc ::
  "env \<Rightarrow> int \<Rightarrow> clockwork_cwu50_panel world \<Rightarrow> int \<times> clockwork_cwu50_panel world" where
  "clockwork_prepare_disable_iovcc env ret s =
     (case regulator_disable env (iovcc (ctx s)) s of (_, s1) \<Rightarrow> (ret, s1))"

definition clockwork_prepare_disable_vci ::
  "env \<Rightarrow> int \<Rightarrow> clockwork_cwu50_panel world \<Rightarrow> int \<times> clockwork_cwu50_panel world" where
  "clockwork_prepare_disable_vci env ret s =
     (case regulator_disable env (vci (ctx s)) s of
        (_, s1) \<Rightarrow> clockwork_prepare_disable_iovcc env ret (usleep_range 5000 20000 s1))"

definition clockwork_cwu50_prepare ::
  "cwu50_init_cmd list \<Rightarrow> env \<Rightarrow> clockwork_cwu50_panel world \<Rightarrow> int \<times> clockwork_cwu50_panel world" where
  "clockwork_cwu50_prepare tbl env s0 =
     (case regulator_enable env (iovcc (ctx s0)) s0 of
        (ret, s1) \<Rightarrow>
          if ret < 0 then (ret, dev_err ''Failed to enable iovcc supply: %d'' [ret] s1)
          else
            (case regulator_enable env (vci (ctx s1)) (usleep_range 1000 5000 s1) of
               (ret, s2) \<Rightarrow>
                 if ret < 0
                 then clockwork_prepare_disable_iovcc env ret
                        (dev_err ''Failed to enable vci supply: %d'' [ret] s2)
                 else
                   (case clockwork_cwu50_init_sequence tbl env (clockwork_cwu50_reset s2) of
                      (ret, s3) \<Rightarrow>
                        if ret < 0
                        then
                          (let s4 = dev_err ''Failed to initialize panel: %d'' [ret] s3;
                               s5 = gpiod_set_value_cansleep (reset_gpio (ctx s4)) 0 s4;
                               s6 = usleep_range 10000 20000 s5
                           in clockwork_prepare_disable_vci env ret s6)
                        else (0, s3))))"

definition clockwork_cwu50_enable ::
  "env \<Rightarrow> clockwork_cwu50_panel world \<Rightarrow> int \<times> clockwork_cwu50_panel world" where
  "clockwork_cwu50_enable env s0 =
     (case mipi_dsi_dcs_exit_sleep_mode env (dsi (ctx s0)) s0 of
        (ret, s1) \<Rightarrow>
          if ret < 0 then (ret, dev_err ''Failed to exit sleep mode: %d'' [ret] s1)
          else
            (case mipi_dsi_dcs_set_display_on env (dsi (ctx s1)) (msleep 120 s1) of
               (ret, s2) \<Rightarrow>
                 if ret < 0 then (ret, dev_err ''Failed to turn display on: %d'' [ret] s2)
                 else
                   (case mipi_dsi_dcs_set_tear_on env (dsi (ctx s2)) MIPI_DSI_DCS_TEAR_MODE_VBLANK
                           (msleep 10 s2) of
                      (ret, s3) \<Rightarrow>
                        if ret < 0 then (ret, dev_err ''Failed to enable vblank TE: %d'' [ret] s3)
                        else (0, s3))))"

definition clockwork_cwu50_disable ::
  "env \<Rightarrow> clockwork_cwu50_panel world \<Rightarrow> int \<times> clockwork_cwu50_panel world" where
  "clockwork_cwu50_disable env s0 =
     (case mipi_dsi_dcs_set_display_off env (dsi (ctx s0)) s0 of
        (ret, s1) \<Rightarrow>
          if ret < 0 then (ret, dev_err ''Failed to turn off panel: %d'' [ret] s1)
          else
            (case mipi_dsi_dcs_enter_sleep_mode env (dsi (ctx s1)) (msleep 50 s1) of
               (ret, s2) \<Rightarrow>
                 if ret < 0 then (ret, dev_err ''Failed to enter sleep mode: %d'' [ret] s2)
                 else (0, msleep 100 s2)))"

definition clockwork_cwu50_unprepare ::
  "env \<Rightarrow> clockwork_cwu50_panel world \<Rightarrow> int \<times> clockwork_cwu50_panel world" where
  "clockwork_cwu50_unprepare env s0 =
     (let s1 = gpiod_set_value_cansleep (reset_gpio (ctx s0)) 0 s0;
          s2 = usleep_range 1000 10000 s1
      in case regulator_disable env (vci (ctx s2)) s2 of
           (ret, s3) \<Rightarrow>
             (let s4 = (if ret < 0 then dev_err ''Failed to disable vci supply: %d'' [ret] s3 else s3);
                  s5 = usleep_range 1000 20000 s4
              in case regulator_disable env (iovcc (ctx s5)) s5 of
                   (ret, s6) \<Rightarrow>
                     (0, if ret < 0 then dev_err ''Failed to disable iovcc supply: %d'' [ret] s6
                         else s6)))"

section \<open>panel-cw-cwu50.c\<close>

definition cw_cwu50_reset :: "cw_cwu50_panel world \<Rightarrow> cw_cwu50_panel world" where
  "cw_cwu50_reset s0 =
     (let s1 = gpiod_set_value_cansleep (reset_gpio (ctx s0)) 1 s0;
          s2 = usleep_range 10000 20000 s1;
          s3 = gpiod_set_value_cansleep (reset_gpio (ctx s2)) 0 s2;
          s4 = usleep_range 10000 20000 s3;
          s5 = gpiod_set_value_cansleep (reset_gpio (ctx s4)) 1 s4
      in msleep 120 s5)"

definition cw_cwu50_init_sequence ::
  "cwu50_init_cmd list \<Rightarrow> env \<Rightarrow> cw_cwu50_panel world \<Rightarrow> int \<times> cw_cwu50_panel world" where
  "cw_cwu50_init_sequence tbl env s =
     (if prepared (ctx s) then (0, s)
      else
        (case cwu50_init_loop env (dsi (ctx s)) tbl s of
           (Some ret, s1) \<Rightarrow> (ret, s1)
         | (None, s1) \<Rightarrow>
             (case mipi_dsi_dcs_exit_sleep_mode env (dsi (ctx s)) s1 of
                (ret, s2) \<Rightarrow>
                  if ret < 0 then (ret, dev_err ''failed to exit sleep mode at init: %d'' [ret] s2)
                  else (0, s2))))"

definition cw_prepare_disable_iovcc ::
  "env \<Rightarrow> int \<Rightarrow> cw_cwu50_panel world \<Rightarrow> int \<times> cw_cwu50_panel world" where
  "cw_prepare_disable_iovcc env ret s =
     (case regulator_disable env (iovcc (ctx s)) s of (_, s1) \<Rightarrow> (ret, s1))"

definition cw_prepare_disable_vci ::
  "env \<Rightarrow> int \<Rightarrow> cw_cwu50_panel world \<Rightarrow> int \<times> cw_cwu50_panel world" where
  "cw_prepare_disable_vci env ret s =
     (case regulator_disable env (vci (ctx s)) s of
        (_, s1) \<Rightarrow> cw_prepare_disable_iovcc env ret s1)"

definition cw_cwu50_prepare ::
  "cwu50_init_cmd list \<Rightarrow> env \<Rightarrow> cw_cwu50_panel world \<Rightarrow> int \<times> cw_cwu50_panel world" where
  "cw_cwu50_prepare tbl env s0 =
     (if prepared (ctx s0) then (0, s0)
      else
        (case regulator_enable env (iovcc (ctx s0)) s0 of
           (ret, s1) \<Rightarrow>
             if ret < 0 then (ret, dev_err ''failed to enable iovcc supply: %d'' [ret] s1)
             else
               (case regulator_enable env (vci (ctx s1)) s1 of
                  (ret, s2) \<Rightarrow>
                    if ret < 0
                    then cw_prepare_disable_iovcc env ret
                           (dev_err ''failed to enable vci supply: %d'' [ret] s2)
                    else
                      (case cw_cwu50_init_sequence tbl env (cw_cwu50_reset s2) of
                         (ret, s3) \<Rightarrow>
                           if ret < 0
                           then
                             (let s4 = dev_err ''Failed to initialize panel: %d'' [ret] s3;
                                  s5 = gpiod_set_value_cansleep (reset_gpio (ctx s4)) 0 s4
                              in cw_prepare_disable_vci env ret s5)
                           else (0, s3\<lparr>ctx := (ctx s3)\<lparr>prepared := True\<rparr>\<rparr>)))))"

definition cw_cwu50_enable :: "env \<Rightarrow> cw_cwu50_panel world \<Rightarrow> int \<times> cw_cwu50_panel world" where
  "cw_cwu50_enable env s0 =
     (case mipi_dsi_dcs_set_display_on env (dsi (ctx s0)) (msleep 120 s0) of
        (ret, s1) \<Rightarrow>
          if ret < 0 then (ret, dev_err ''failed to set display on: %d'' [ret] s1)
          else
            (case mipi_dsi_dcs_set_tear_on env (dsi (ctx s1)) MIPI_DSI_DCS_TEAR_MODE_VBLANK
                    (msleep 20 s1) of
               (ret, s2) \<Rightarrow>
                 if ret < 0 then (ret, dev_err ''failed to enable vblank TE: %d'' [ret] s2)
                 else (0, s2)))"

definition cw_cwu50_disable :: "env \<Rightarrow> cw_cwu50_panel world \<Rightarrow> int \<times> cw_cwu50_panel world" where
  "cw_cwu50_disable env s0 = mipi_dsi_dcs_set_display_off env (dsi (ctx s0)) s0"

definition cw_cwu50_unprepare :: "env \<Rightarrow> cw_cwu50_panel world \<Rightarrow> int \<times> cw_cwu50_panel world" where
  "cw_cwu50_unprepare env s0 =
     (if \<not> prepared (ctx s0) then (0, s0)
      else
        (case mipi_dsi_dcs_set_display_off env (dsi (ctx s0)) s0 of
           (ret, s1) \<Rightarrow>
             (let s2 = (if ret < 0 then dev_err ''Failed to turn off panel: %d'' [ret] s1 else s1);
                  s3 = msleep 20 s2
              in case mipi_dsi_dcs_enter_sleep_mode env (dsi (ctx s0)) s3 of
                   (ret, s4) \<Rightarrow>
                     (let s5 = (if ret < 0 then dev_err ''Failed to turn off panel: %d'' [ret] s4
                                else s4);
                          s6 = msleep 120 s5;
                          s7 = gpiod_set_value_cansleep (reset_gpio (ctx s6)) 0 s6;
                          s8 = msleep 20 s7
                      in case regulator_disable env (vci (ctx s8)) s8 of
                           (ret, s9) \<Rightarrow>
                             (let s10 = (if ret < 0
                                         then dev_err ''failed to disable vci supply: %d'' [ret] s9
                                         else s9);
                                  s11 = usleep_range 1000 20000 s10
                              in case regulator_disable env (iovcc (ctx s11)) s11 of
                                   (ret, s12) \<Rightarrow>
                                     (let s13 = (if ret < 0
                                                 then dev_err ''failed to disable iovcc supply: %d''
                                                        [ret] s12
                                                 else s12)
                                      in (0, s13\<lparr>ctx := (ctx s13)\<lparr>prepared := False\<rparr>\<rparr>)))))))"

section \<open>Observing a run\<close>

text \<open>The events a call appended to the trace, read off the states before and after.\<close>

definition emitted :: "'h world \<Rightarrow> 'h world \<Rightarrow> hw_event list" where
  "emitted s s' = drop (length (trace s)) (trace s')"

text \<open>The operation that sends one table entry over the DSI link.\<close>

definition write_op :: "mipi_dsi_device \<Rightarrow> cwu50_init_cmd \<Rightarrow> hw_op" where
  "write_op d cmd = Dcs_write_buffer d (cmd_data cmd)"

fun is_dcs_write :: "hw_op \<Rightarrow> bool" where
  "is_dcs_write (Dcs_write_buffer d bytes) = True"
| "is_dcs_write _ = False"

text \<open>The transport writes of the command table among some events, in order.\<close>

definition dcs_writes :: "hw_event list \<Rightarrow> hw_event list" where
  "dcs_writes evs = filter (\<lambda>e. is_dcs_write (fst e)) evs"

definition succeeded_writes :: "hw_event list \<Rightarrow> hw_event list" where
  "succeeded_writes evs = filter (\<lambda>e. 0 \<le> snd e) (dcs_writes evs)"

definition failed_writes :: "hw_event list \<Rightarrow> hw_event list" where
  "failed_writes evs = filter (\<lambda>e. snd e < 0) (dcs_writes evs)"

text \<open>
  The level last driven on a GPIO line by the events of a trace (\<open>None\<close> when the
  trace never drives it). The reset line is LOW when this is \<open>Some 0\<close>.
\<close>

fun gpio_step :: "gpio_desc \<Rightarrow> int option \<Rightarrow> hw_op \<Rightarrow> int option" where
  "gpio_step g lvl (Gpiod_set_value_cansleep g' v) = (if g' = g then Some v else lvl)"
| "gpio_step g lvl _ = lvl"

definition gpio_level :: "gpio_desc \<Rightarrow> hw_event list \<Rightarrow> int option" where
  "gpio_level g tr = foldl (gpio_step g) None (map fst tr)"

text \<open>
  Delays: the shortest time a delay operation blocks, in microseconds
  (\<^verbatim>\<open>usleep_range(min, max)\<close> sleeps at least \<open>min\<close> microseconds,
  \<^verbatim>\<open>msleep(ms)\<close> at least \<open>ms\<close> milliseconds).
\<close>

fun min_delay_us :: "hw_op \<Rightarrow> nat option" where
  "min_delay_us (Usleep_range lo hi) = Some lo"
| "min_delay_us (Msleep ms) = Some (1000 * ms)"
| "min_delay_us _ = None"


definition waits_at_least_ms :: "nat \<Rightarrow> hw_op \<Rightarrow> bool" where
  "waits_at_least_ms ms c = (case min_delay_us c of None \<Rightarrow> False | Some us \<Rightarrow> 1000 * ms \<le> us)"

definition waits_between_ms :: "nat \<Rightarrow> nat \<Rightarrow> hw_op \<Rightarrow> bool" where
  "waits_between_ms lo hi c =
     (case min_delay_us c of None \<Rightarrow> False | Some us \<Rightarrow> 1000 * lo \<le> us \<and> us \<le> 1000 * hi)"

text \<open>Operations on the power rails or on a GPIO line.\<close>

fun is_power_op :: "hw_op \<Rightarrow> bool" where
  "is_power_op (Regulator_enable r) = True"
| "is_power_op (Regulator_disable r) = True"
| "is_power_op (Gpiod_set_value_cansleep g v) = True"
| "is_power_op _ = False"

subsection \<open>The sequences the specification names\<close>


text \<open>
  The steps the specification gives for a successful enable: exit sleep mode, wait at
  least 120 ms, display on, wait 10 to 20 ms, tearing signal on (vblank).
\<close>

definition spec_enable_steps :: "mipi_dsi_device \<Rightarrow> hw_op list \<Rightarrow> bool" where
  "spec_enable_steps d ops =
     (length ops = 5
      \<and> ops ! 0 = Dcs_exit_sleep_mode d \<and> waits_at_least_ms 120 (ops ! 1)
      \<and> ops ! 2 = Dcs_set_display_on d \<and> waits_between_ms 10 20 (ops ! 3)
      \<and> ops ! 4 = Dcs_set_tear_on d MIPI_DSI_DCS_TEAR_MODE_VBLANK)"

text \<open>
  The steps the specification gives for a successful disable: display off, wait at
  least 50 ms, enter sleep mode, wait at least 100 ms.
\<close>

definition spec_disable_steps :: "mipi_dsi_device \<Rightarrow> hw_op list \<Rightarrow> bool" where
  "spec_disable_steps d ops =
     (length ops = 4
      \<and> ops ! 0 = Dcs_set_display_off d \<and> waits_at_least_ms 50 (ops ! 1)
      \<and> ops ! 2 = Dcs_enter_sleep_mode d \<and> waits_at_least_ms 100 (ops ! 3))"

subsection \<open>The operation sequences of the two prepare functions\<close>

definition clockwork_power_on :: "clockwork_cwu50_panel \<Rightarrow> hw_op list" where
  "clockwork_power_on h =
     [Regulator_enable (iovcc h), Usleep_range 1000 5000, Regulator_enable (vci h),
      Gpiod_set_value_cansleep (reset_gpio h) 1, Usleep_range 5000 10000,
      Gpiod_set_value_cansleep (reset_gpio h) 0, Usleep_range 1000 10000,
      Gpiod_set_value_cansleep (reset_gpio h) 1, Usleep_range 10000 20000]"

definition clockwork_rollback :: "clockwork_cwu50_panel \<Rightarrow> hw_op list" where
  "clockwork_rollback h =
     [Gpiod_set_value_cansleep (reset_gpio h) 0, Usleep_range 10000 20000,
      Regulator_disable (vci h), Usleep_range 5000 20000, Regulator_disable (iovcc h)]"

definition cw_power_on :: "cw_cwu50_panel \<Rightarrow> hw_op list" where
  "cw_power_on h =
     [Regulator_enable (iovcc h), Regulator_enable (vci h),
      Gpiod_set_value_cansleep (reset_gpio h) 1, Usleep_range 10000 20000,
      Gpiod_set_value_cansleep (reset_gpio h) 0, Usleep_range 10000 20000,
      Gpiod_set_value_cansleep (reset_gpio h) 1, Msleep 120]"

definition cw_rollback :: "cw_cwu50_panel \<Rightarrow> hw_op list" where
  "cw_rollback h =
     [Gpiod_set_value_cansleep (reset_gpio h) 0,
      Regulator_disable (vci h), Regulator_disable (iovcc h)]"

subsection \<open>Concrete handles and environments\<close>

text \<open>
  A freshly probed handle of each driver (\<^verbatim>\<open>devm_kzalloc\<close> zeroes the flag), and
  environments: one in which every call succeeds, one in which the call made after
  \<open>n\<close> events fails with \<open>code\<close>, and one in which every
  \<^verbatim>\<open>regulator_disable\<close> fails with \<^verbatim>\<open>-EIO\<close>.
\<close>

definition clockwork_handle :: clockwork_cwu50_panel where
  "clockwork_handle =
     \<lparr>panel = Drm_panel 0, dsi = Dsi 0, vci = Regulator 0, iovcc = Regulator 1,
      reset_gpio = Gpio 0, orientation = 0\<rparr>"

definition clockwork_boot :: "clockwork_cwu50_panel world" where
  "clockwork_boot = \<lparr>ctx = clockwork_handle, trace = [], klog = []\<rparr>"

definition cw_handle :: cw_cwu50_panel where
  "cw_handle =
     \<lparr>panel = Drm_panel 0, dsi = Dsi 0, vci = Regulator 0, iovcc = Regulator 1,
      reset_gpio = Gpio 0, prepared = False\<rparr>"

definition cw_boot :: "cw_cwu50_panel world" where
  "cw_boot = \<lparr>ctx = cw_handle, trace = [], klog = []\<rparr>"

definition cw_prepared :: "cw_cwu50_panel world" where
  "cw_prepared = \<lparr>ctx = cw_handle\<lparr>prepared := True\<rparr>, trace = [], klog = []\<rparr>"

definition env_ok :: env where
  "env_ok tr c = 0"

definition env_fail_at :: "nat \<Rightarrow> int \<Rightarrow> env" where
  "env_fail_at n code tr c = (if length tr = n then code else 0)"

fun env_disable_fails :: env where
  "env_disable_fails tr (Regulator_disable r) = - 5"
| "env_disable_fails tr _ = 0"

text \<open>The clockwork handle after one prepare call in which every call succeeded.\<close>

definition clockwork_prepared_once :: "clockwork_cwu50_panel world" where
  "clockwork_prepared_once =
     snd (clockwork_cwu50_prepare clockwork_cwu50_panel_init_cmds env_ok clockwork_boot)"


section \<open>Runs of the command loop and of prepare\<close>

lemmas prim_defs = hw_call_def hw_void_def regulator_enable_def regulator_disable_def
  gpiod_set_value_cansleep_def usleep_range_def msleep_def mipi_dsi_dcs_write_buffer_def
  mipi_dsi_dcs_exit_sleep_mode_def mipi_dsi_dcs_set_display_on_def mipi_dsi_dcs_set_tear_on_def
  mipi_dsi_dcs_set_display_off_def mipi_dsi_dcs_enter_sleep_mode_def dev_err_def
  dev_err_ratelimited_def

lemmas call_defs = regulator_enable_def regulator_disable_def
  gpiod_set_value_cansleep_def usleep_range_def msleep_def mipi_dsi_dcs_write_buffer_def
  mipi_dsi_dcs_exit_sleep_mode_def mipi_dsi_dcs_set_display_on_def mipi_dsi_dcs_set_tear_on_def
  mipi_dsi_dcs_set_display_off_def mipi_dsi_dcs_enter_sleep_mode_def

text \<open>What one primitive does to each component of the state.\<close>

lemma world_simps:
  "ctx (hw_void c s) = ctx s" "trace (hw_void c s) = trace s @ [(c, 0)]"
  "klog (hw_void c s) = klog s"
  "fst (hw_call env c s) = env (trace s) c"
  "ctx (snd (hw_call env c s)) = ctx s"
  "trace (snd (hw_call env c s)) = trace s @ [(c, env (trace s) c)]"
  "klog (snd (hw_call env c s)) = klog s"
  "ctx (dev_err f a s) = ctx s" "trace (dev_err f a s) = trace s"
  "klog (dev_err f a s) = klog s @ [Dev_err f a]"
  "ctx (if b then dev_err f a s else s) = ctx s"
  "trace (if b then dev_err f a s else s) = trace s"
  by (simp_all add: hw_void_def hw_call_def dev_err_def Let_def)

lemma emitted_append: "trace s' = trace s @ evs \<Longrightarrow> emitted s s' = evs"
  by (simp add: emitted_def)

lemma init_loop_run:
  "\<exists>evs. trace (snd (cwu50_init_loop env d tbl s)) = trace s @ evs
     \<and> ctx (snd (cwu50_init_loop env d tbl s)) = ctx s
     \<and> map fst evs = map (write_op d) (take (length evs) tbl)
     \<and> length evs \<le> length tbl
     \<and> (\<forall>e \<in> set (butlast evs). 0 \<le> snd e)
     \<and> (case fst (cwu50_init_loop env d tbl s) of
          None \<Rightarrow> length evs = length tbl \<and> (\<forall>e \<in> set evs. 0 \<le> snd e)
                  \<and> klog (snd (cwu50_init_loop env d tbl s)) = klog s
        | Some r \<Rightarrow> evs \<noteq> [] \<and> snd (last evs) = r \<and> r < 0
                  \<and> klog (snd (cwu50_init_loop env d tbl s)) =
                      klog s @ [Dev_err_ratelimited ''sending command %#02x failed: %d''
                                 [uint (fst (tbl ! (length evs - 1))), r]])"
proof (induction tbl arbitrary: s)
  case Nil
  then show ?case by simp
next
  case (Cons cmd cmds)
  define r where "r = env (trace s) (write_op d cmd)"
  define s1 where "s1 = s\<lparr>trace := trace s @ [(write_op d cmd, r)]\<rparr>"
  have step: "mipi_dsi_dcs_write_buffer env d (cmd_data cmd) s = (r, s1)"
    by (simp add: prim_defs r_def s1_def write_op_def Let_def)
  show ?case
  proof (cases "r < 0")
    case True
    then show ?thesis
      by (intro exI[of _ "[(write_op d cmd, r)]"]) (simp add: step s1_def dev_err_def dev_err_ratelimited_def)
  next
    case False
    from Cons.IH[of s1] obtain evs where
      ih: "trace (snd (cwu50_init_loop env d cmds s1)) = trace s1 @ evs"
        "ctx (snd (cwu50_init_loop env d cmds s1)) = ctx s1"
        "map fst evs = map (write_op d) (take (length evs) cmds)"
        "length evs \<le> length cmds"
        "\<forall>e \<in> set (butlast evs). 0 \<le> snd e"
        "case fst (cwu50_init_loop env d cmds s1) of
          None \<Rightarrow> length evs = length cmds \<and> (\<forall>e \<in> set evs. 0 \<le> snd e)
                  \<and> klog (snd (cwu50_init_loop env d cmds s1)) = klog s1
        | Some r \<Rightarrow> evs \<noteq> [] \<and> snd (last evs) = r \<and> r < 0
                  \<and> klog (snd (cwu50_init_loop env d cmds s1)) =
                      klog s1 @ [Dev_err_ratelimited ''sending command %#02x failed: %d''
                                 [uint (fst (cmds ! (length evs - 1))), r]]"
      by blast
    from False ih show ?thesis
      by (intro exI[of _ "(write_op d cmd, r) # evs"])
         (auto simp: step s1_def split: option.splits)
  qed
qed

lemma init_loop_cases:
  assumes "res = cwu50_init_loop env d tbl s"
  obtains (completed) ws where "fst res = None" "trace (snd res) = trace s @ ws"
      "ctx (snd res) = ctx s" "klog (snd res) = klog s"
      "map fst ws = map (write_op d) tbl" "\<forall>e \<in> set ws. 0 \<le> snd e"
  | (failed) r ws where "fst res = Some r" "r < 0" "trace (snd res) = trace s @ ws"
      "ctx (snd res) = ctx s" "ws \<noteq> []" "length ws \<le> length tbl"
      "map fst ws = map (write_op d) (take (length ws) tbl)"
      "\<forall>e \<in> set (butlast ws). 0 \<le> snd e" "snd (last ws) = r"
      "klog (snd res) = klog s @ [Dev_err_ratelimited ''sending command %#02x failed: %d''
                                 [uint (fst (tbl ! (length ws - 1))), r]]"
proof -
  from init_loop_run[of env d tbl s] obtain ws where
    ws: "trace (snd res) = trace s @ ws" "ctx (snd res) = ctx s"
      "map fst ws = map (write_op d) (take (length ws) tbl)"
      "length ws \<le> length tbl"
      "\<forall>e \<in> set (butlast ws). 0 \<le> snd e"
      "case fst res of
          None \<Rightarrow> length ws = length tbl \<and> (\<forall>e \<in> set ws. 0 \<le> snd e)
                  \<and> klog (snd res) = klog s
        | Some r \<Rightarrow> ws \<noteq> [] \<and> snd (last ws) = r \<and> r < 0
                  \<and> klog (snd res) =
                      klog s @ [Dev_err_ratelimited ''sending command %#02x failed: %d''
                                 [uint (fst (tbl ! (length ws - 1))), r]]"
    unfolding assms by blast
  show ?thesis
  proof (cases "fst res")
    case None
    with ws show ?thesis by (intro completed[of ws]) simp_all
  next
    case (Some r)
    with ws show ?thesis by (intro failed[of r ws]) simp_all
  qed
qed

lemma clockwork_prepare_cases:
  fixes s :: "clockwork_cwu50_panel world"
  assumes "res = clockwork_cwu50_prepare tbl env s"
  obtains (iovcc_failed) "fst res < 0" "ctx (snd res) = ctx s"
      "trace (snd res) = trace s @ [(Regulator_enable (iovcc (ctx s)), fst res)]"
  | (vci_failed) r1 r3 where "fst res < 0" "ctx (snd res) = ctx s" "0 \<le> r1"
      "trace (snd res) = trace s @
          [(Regulator_enable (iovcc (ctx s)), r1), (Usleep_range 1000 5000, 0),
           (Regulator_enable (vci (ctx s)), fst res), (Regulator_disable (iovcc (ctx s)), r3)]"
  | (succeeded) pre ws where "fst res = 0" "ctx (snd res) = ctx s"
      "trace (snd res) = trace s @ pre @ ws"
      "map fst pre = clockwork_power_on (ctx s)" "\<forall>e \<in> set pre. 0 \<le> snd e"
      "map fst ws = map (write_op (dsi (ctx s))) tbl" "\<forall>e \<in> set ws. 0 \<le> snd e"
  | (init_failed) pre ws rb where "fst res < 0" "ctx (snd res) = ctx s"
      "trace (snd res) = trace s @ pre @ ws @ rb"
      "map fst pre = clockwork_power_on (ctx s)" "\<forall>e \<in> set pre. 0 \<le> snd e"
      "ws \<noteq> []" "length ws \<le> length tbl"
      "map fst ws = map (write_op (dsi (ctx s))) (take (length ws) tbl)"
      "\<forall>e \<in> set (butlast ws). 0 \<le> snd e" "snd (last ws) = fst res"
      "map fst rb = clockwork_rollback (ctx s)"
proof -
  define r1 where "r1 = env (trace s) (Regulator_enable (iovcc (ctx s)))"
  define t1 where "t1 = [(Regulator_enable (iovcc (ctx s)), r1), (Usleep_range 1000 5000, 0)]"
  define r2 where "r2 = env (trace s @ t1) (Regulator_enable (vci (ctx s)))"
  define pre where "pre = t1 @ [(Regulator_enable (vci (ctx s)), r2),
      (Gpiod_set_value_cansleep (reset_gpio (ctx s)) 1, 0), (Usleep_range 5000 10000, 0),
      (Gpiod_set_value_cansleep (reset_gpio (ctx s)) 0, 0), (Usleep_range 1000 10000, 0),
      (Gpiod_set_value_cansleep (reset_gpio (ctx s)) 1, 0), (Usleep_range 10000 20000, 0)]"
  define sR where "sR = s\<lparr>trace := trace s @ pre\<rparr>"
  consider (a) "r1 < 0" | (b) "0 \<le> r1" "r2 < 0" | (c) "0 \<le> r1" "0 \<le> r2" by linarith
  then show ?thesis
  proof cases
    case a
    then show ?thesis
      by (intro iovcc_failed)
         (simp_all add: assms clockwork_cwu50_prepare_def prim_defs r1_def Let_def)
  next
    case b
    then show ?thesis
      by (intro vci_failed[of r1 "env (trace s @ t1 @ [(Regulator_enable (vci (ctx s)), r2)])
             (Regulator_disable (iovcc (ctx s)))"])
         (simp_all add: assms clockwork_cwu50_prepare_def clockwork_prepare_disable_iovcc_def
            prim_defs r1_def r2_def t1_def Let_def)
  next
    case c
    have ctxR: "ctx sR = ctx s" "trace sR = trace s @ pre" by (simp_all add: sR_def)
    have pre_ops: "map fst pre = clockwork_power_on (ctx s)"
      by (simp add: pre_def t1_def clockwork_power_on_def)
    have pre_ok: "\<forall>e \<in> set pre. 0 \<le> snd e"
      using c by (simp add: pre_def t1_def)
    have unfold: "res =
      (case clockwork_cwu50_init_sequence tbl env sR of
         (ret, s3) \<Rightarrow>
           if ret < 0
           then
             (let s4 = dev_err ''Failed to initialize panel: %d'' [ret] s3;
                  s5 = gpiod_set_value_cansleep (reset_gpio (ctx s4)) 0 s4;
                  s6 = usleep_range 10000 20000 s5
              in clockwork_prepare_disable_vci env ret s6)
           else (0, s3))"
      using c
      by (simp add: assms clockwork_cwu50_prepare_def clockwork_cwu50_reset_def prim_defs
          r1_def r2_def t1_def pre_def sR_def Let_def)
    obtain lr s3 where loop: "cwu50_init_loop env (dsi (ctx s)) tbl sR = (lr, s3)"
      by (cases "cwu50_init_loop env (dsi (ctx s)) tbl sR")
    have "(lr, s3) = cwu50_init_loop env (dsi (ctx s)) tbl sR" by (simp add: loop)
    then show ?thesis
    proof (cases rule: init_loop_cases)
      case (completed ws)
      with loop pre_ops pre_ok show ?thesis
        by (intro succeeded[of pre ws])
           (simp_all add: unfold clockwork_cwu50_init_sequence_def ctxR)
    next
      case (failed r ws)
      define rb where "rb = drop (length (trace s3)) (trace (snd res))"
      from failed loop have "fst res = r" "ctx (snd res) = ctx s"
        "trace (snd res) = trace s @ pre @ ws @ rb" "map fst rb = clockwork_rollback (ctx s)"
        by (simp_all add: rb_def unfold clockwork_cwu50_init_sequence_def ctxR
            clockwork_prepare_disable_vci_def clockwork_prepare_disable_iovcc_def prim_defs
            clockwork_rollback_def Let_def)
      with failed pre_ops pre_ok show ?thesis
        by (intro init_failed[of pre ws rb]) simp_all
    qed
  qed
qed

lemma cw_prepare_cases:
  fixes s :: "cw_cwu50_panel world"
  assumes "res = cw_cwu50_prepare tbl env s"
  obtains (already) "prepared (ctx s)" "res = (0, s)"
  | (iovcc_failed) "\<not> prepared (ctx s)" "fst res < 0" "ctx (snd res) = ctx s"
      "trace (snd res) = trace s @ [(Regulator_enable (iovcc (ctx s)), fst res)]"
  | (vci_failed) r1 r3 where "\<not> prepared (ctx s)" "fst res < 0" "ctx (snd res) = ctx s"
      "0 \<le> r1"
      "trace (snd res) = trace s @
          [(Regulator_enable (iovcc (ctx s)), r1),
           (Regulator_enable (vci (ctx s)), fst res), (Regulator_disable (iovcc (ctx s)), r3)]"
  | (succeeded) pre ws r where "\<not> prepared (ctx s)" "fst res = 0"
      "ctx (snd res) = (ctx s)\<lparr>prepared := True\<rparr>"
      "trace (snd res) = trace s @ pre @ ws @ [(Dcs_exit_sleep_mode (dsi (ctx s)), r)]"
      "0 \<le> r"
      "map fst pre = cw_power_on (ctx s)" "\<forall>e \<in> set pre. 0 \<le> snd e"
      "map fst ws = map (write_op (dsi (ctx s))) tbl" "\<forall>e \<in> set ws. 0 \<le> snd e"
  | (init_failed) pre ws rb where "\<not> prepared (ctx s)" "fst res < 0" "ctx (snd res) = ctx s"
      "trace (snd res) = trace s @ pre @ ws @ rb"
      "map fst pre = cw_power_on (ctx s)" "\<forall>e \<in> set pre. 0 \<le> snd e"
      "ws \<noteq> []" "length ws \<le> length tbl"
      "map fst ws = map (write_op (dsi (ctx s))) (take (length ws) tbl)"
      "\<forall>e \<in> set (butlast ws). 0 \<le> snd e" "snd (last ws) = fst res"
      "map fst rb = cw_rollback (ctx s)"
  | (sleep_out_failed) pre ws rb where "\<not> prepared (ctx s)" "fst res < 0"
      "ctx (snd res) = ctx s"
      "trace (snd res) = trace s @ pre @ ws @ (Dcs_exit_sleep_mode (dsi (ctx s)), fst res) # rb"
      "map fst pre = cw_power_on (ctx s)" "\<forall>e \<in> set pre. 0 \<le> snd e"
      "map fst ws = map (write_op (dsi (ctx s))) tbl" "\<forall>e \<in> set ws. 0 \<le> snd e"
      "map fst rb = cw_rollback (ctx s)"
proof (cases "prepared (ctx s)")
  case True
  then show ?thesis by (intro already) (simp_all add: assms cw_cwu50_prepare_def)
next
  case np: False
  define r1 where "r1 = env (trace s) (Regulator_enable (iovcc (ctx s)))"
  define t1 where "t1 = [(Regulator_enable (iovcc (ctx s)), r1)]"
  define r2 where "r2 = env (trace s @ t1) (Regulator_enable (vci (ctx s)))"
  define pre where "pre = t1 @ [(Regulator_enable (vci (ctx s)), r2),
      (Gpiod_set_value_cansleep (reset_gpio (ctx s)) 1, 0), (Usleep_range 10000 20000, 0),
      (Gpiod_set_value_cansleep (reset_gpio (ctx s)) 0, 0), (Usleep_range 10000 20000, 0),
      (Gpiod_set_value_cansleep (reset_gpio (ctx s)) 1, 0), (Msleep 120, 0)]"
  define sR where "sR = s\<lparr>trace := trace s @ pre\<rparr>"
  consider (a) "r1 < 0" | (b) "0 \<le> r1" "r2 < 0" | (c) "0 \<le> r1" "0 \<le> r2" by linarith
  then show ?thesis
  proof cases
    case a
    with np show ?thesis
      by (intro iovcc_failed)
         (simp_all add: assms cw_cwu50_prepare_def prim_defs r1_def Let_def)
  next
    case b
    with np show ?thesis
      by (intro vci_failed[of r1 "env (trace s @ t1 @ [(Regulator_enable (vci (ctx s)), r2)])
             (Regulator_disable (iovcc (ctx s)))"])
         (simp_all add: assms cw_cwu50_prepare_def cw_prepare_disable_iovcc_def
            prim_defs r1_def r2_def t1_def Let_def)
  next
    case c
    have ctxR: "ctx sR = ctx s" "trace sR = trace s @ pre" by (simp_all add: sR_def)
    have pre_ops: "map fst pre = cw_power_on (ctx s)"
      by (simp add: pre_def t1_def cw_power_on_def)
    have pre_ok: "\<forall>e \<in> set pre. 0 \<le> snd e"
      using c by (simp add: pre_def t1_def)
    have unfold: "res =
      (case cw_cwu50_init_sequence tbl env sR of
         (ret, s3) \<Rightarrow>
           if ret < 0
           then
             (let s4 = dev_err ''Failed to initialize panel: %d'' [ret] s3;
                  s5 = gpiod_set_value_cansleep (reset_gpio (ctx s4)) 0 s4
              in cw_prepare_disable_vci env ret s5)
           else (0, s3\<lparr>ctx := (ctx s3)\<lparr>prepared := True\<rparr>\<rparr>))"
      using c np
      by (simp add: assms cw_cwu50_prepare_def cw_cwu50_reset_def prim_defs
          r1_def r2_def t1_def pre_def sR_def Let_def)
    obtain lr s3 where loop: "cwu50_init_loop env (dsi (ctx s)) tbl sR = (lr, s3)"
      by (cases "cwu50_init_loop env (dsi (ctx s)) tbl sR")
    have "(lr, s3) = cwu50_init_loop env (dsi (ctx s)) tbl sR" by (simp add: loop)
    then show ?thesis
    proof (cases rule: init_loop_cases)
      case (completed ws)
      define r where "r = env (trace s3) (Dcs_exit_sleep_mode (dsi (ctx s)))"
      show ?thesis
      proof (cases "r < 0")
        case True
        define rb where "rb = drop (Suc (length (trace s3))) (trace (snd res))"
        from True completed loop np have "fst res = r" "ctx (snd res) = ctx s"
          "trace (snd res) = trace s @ pre @ ws @ (Dcs_exit_sleep_mode (dsi (ctx s)), r) # rb"
          "map fst rb = cw_rollback (ctx s)"
          by (simp_all add: rb_def r_def unfold cw_cwu50_init_sequence_def ctxR
              cw_prepare_disable_vci_def cw_prepare_disable_iovcc_def prim_defs
              cw_rollback_def Let_def)
        with True completed pre_ops pre_ok np show ?thesis
          by (intro sleep_out_failed[of pre ws rb]) simp_all
      next
        case False
        with completed loop pre_ops pre_ok np show ?thesis
          by (intro succeeded[of pre ws r])
             (simp_all add: r_def unfold cw_cwu50_init_sequence_def ctxR prim_defs Let_def)
      qed
    next
      case (failed r ws)
      define rb where "rb = drop (length (trace s3)) (trace (snd res))"
      from failed loop np have "fst res = r" "ctx (snd res) = ctx s"
        "trace (snd res) = trace s @ pre @ ws @ rb" "map fst rb = cw_rollback (ctx s)"
        by (simp_all add: rb_def unfold cw_cwu50_init_sequence_def ctxR
            cw_prepare_disable_vci_def cw_prepare_disable_iovcc_def prim_defs
            cw_rollback_def Let_def)
      with failed pre_ops pre_ok np show ?thesis
        by (intro init_failed[of pre ws rb]) simp_all
    qed
  qed
qed

lemma dcs_writes_append: "dcs_writes (xs @ ys) = dcs_writes xs @ dcs_writes ys"
  by (simp add: dcs_writes_def)

lemma dcs_writes_none:
  "map fst evs = ops \<Longrightarrow> filter is_dcs_write ops = [] \<Longrightarrow> dcs_writes evs = []"
  by (fastforce simp: dcs_writes_def filter_empty_conv)

lemma dcs_writes_all: "map fst ws = map (write_op d) xs \<Longrightarrow> dcs_writes ws = ws"
proof -
  assume a: "map fst ws = map (write_op d) xs"
  have "\<forall>e \<in> set ws. is_dcs_write (fst e)"
  proof
    fix e assume "e \<in> set ws"
    then have "fst e \<in> set (map fst ws)" by simp
    with a show "is_dcs_write (fst e)" by (auto simp: write_op_def)
  qed
  then show ?thesis by (simp add: dcs_writes_def)
qed

lemma failed_is_last:
  assumes "\<forall>e \<in> set (butlast ws). 0 \<le> snd e" "i < length ws" "snd (ws ! i) < (0::int)"
  shows "Suc i = length ws"
proof (rule ccontr)
  assume "Suc i \<noteq> length ws"
  with assms(2) have "i < length (butlast ws)" by simp
  then have "butlast ws ! i \<in> set (butlast ws)" and "butlast ws ! i = ws ! i"
    by (rule nth_mem, rule nth_butlast)
  with assms(1,3) show False by force
qed

lemma split_ok_failed:
  assumes "ws \<noteq> []" "\<forall>e \<in> set (butlast ws). 0 \<le> snd e" "snd (last ws) < (0::int)"
  shows "filter (\<lambda>e. 0 \<le> snd e) ws = butlast ws" "filter (\<lambda>e. snd e < 0) ws = [last ws]"
proof -
  have ws: "ws = butlast ws @ [last ws]" using assms(1) by simp
  have a: "filter (\<lambda>e. 0 \<le> snd e) (butlast ws) = butlast ws"
    using assms(2) by (simp add: filter_id_conv)
  have b: "filter (\<lambda>e. snd e < 0) (butlast ws) = []"
    using assms(2) by (auto simp: filter_empty_conv)
  show "filter (\<lambda>e. 0 \<le> snd e) ws = butlast ws"
    by (subst ws, simp only: filter_append a) (use assms(3) in simp)
  show "filter (\<lambda>e. snd e < 0) ws = [last ws]"
    by (subst ws, simp only: filter_append b) (use assms(3) in simp)
qed

lemma gpio_level_append:
  "gpio_level g (tr @ evs) = foldl (gpio_step g) (gpio_level g tr) (map fst evs)"
  by (simp add: gpio_level_def)

lemma gpio_step_writes: "foldl (gpio_step g) lvl (map (write_op d) xs) = lvl"
  by (induction xs arbitrary: lvl) (simp_all add: write_op_def)

text \<open>Closed forms of the runs in which every call succeeds.\<close>

lemma init_loop_env_ok:
  "cwu50_init_loop env_ok d tbl s
     = (None, s\<lparr>trace := trace s @ map (\<lambda>c. (write_op d c, 0)) tbl\<rparr>)"
  by (induction tbl arbitrary: s) (simp_all add: prim_defs env_ok_def write_op_def)

lemma clockwork_prepare_env_ok:
  "clockwork_cwu50_prepare tbl env_ok s
     = (0, s\<lparr>trace := trace s @ map (\<lambda>c. (c, 0)) (clockwork_power_on (ctx s))
                  @ map (\<lambda>c. (write_op (dsi (ctx s)) c, 0)) tbl\<rparr>)"
  by (simp add: clockwork_cwu50_prepare_def clockwork_cwu50_reset_def
      clockwork_cwu50_init_sequence_def init_loop_env_ok clockwork_power_on_def Let_def
      prim_defs env_ok_def)

lemma cw_prepare_env_ok:
  "\<not> prepared (ctx s) \<Longrightarrow>
   cw_cwu50_prepare tbl env_ok s
     = (0, s\<lparr>ctx := (ctx s)\<lparr>prepared := True\<rparr>,
              trace := trace s @ map (\<lambda>c. (c, 0)) (cw_power_on (ctx s))
                  @ map (\<lambda>c. (write_op (dsi (ctx s)) c, 0)) tbl
                  @ [(Dcs_exit_sleep_mode (dsi (ctx s)), 0)]\<rparr>)"
  by (simp add: cw_cwu50_prepare_def cw_cwu50_reset_def
      cw_cwu50_init_sequence_def init_loop_env_ok cw_power_on_def Let_def
      prim_defs env_ok_def)


section \<open>Rollback after a failed command\<close>

lemmas clockwork_defs = clockwork_cwu50_prepare_def clockwork_cwu50_reset_def
  clockwork_cwu50_init_sequence_def clockwork_prepare_disable_vci_def
  clockwork_prepare_disable_iovcc_def

lemmas cw_defs = cw_cwu50_prepare_def cw_cwu50_reset_def cw_cwu50_init_sequence_def
  cw_prepare_disable_vci_def cw_prepare_disable_iovcc_def

lemma dcs_writes_power_on:
  "map fst pre = clockwork_power_on h \<Longrightarrow> dcs_writes pre = []"
  "map fst pre' = cw_power_on h' \<Longrightarrow> dcs_writes pre' = []"
  "map fst rb = clockwork_rollback h \<Longrightarrow> dcs_writes rb = []"
  "map fst rb' = cw_rollback h' \<Longrightarrow> dcs_writes rb' = []"
  by (erule dcs_writes_none,
      simp add: clockwork_power_on_def cw_power_on_def clockwork_rollback_def cw_rollback_def)+

lemma writes_failed_shape:
  fixes ws :: "hw_event list"
  assumes ws: "ws \<noteq> []" "length ws \<le> length tbl"
      "map fst ws = map (write_op d) (take (length ws) tbl)"
      "\<forall>e \<in> set (butlast ws). 0 \<le> snd e" "snd (last ws) = r" "r < 0"
    and K: "1 \<le> K" "K \<le> length ws" "snd (ws ! (K - 1)) < 0"
  shows "length ws = K" "length (filter (\<lambda>e. 0 \<le> snd e) ws) = K - 1"
    "length (filter (\<lambda>e. snd e < 0) ws) = 1" "map fst ws = map (write_op d) (take K tbl)"
    "snd (ws ! (K - 1)) = r"
proof -
  from K have "K - 1 < length ws" by simp
  from failed_is_last[OF ws(4) this K(3)] K(1) show len: "length ws = K" by simp
  from ws(5,6) have "snd (last ws) < 0" by simp
  from split_ok_failed[OF ws(1,4) this] len
  show "length (filter (\<lambda>e. 0 \<le> snd e) ws) = K - 1" "length (filter (\<lambda>e. snd e < 0) ws) = 1"
    by simp_all
  from ws(3) len show "map fst ws = map (write_op d) (take K tbl)" by simp
  from ws(1,5) len show "snd (ws ! (K - 1)) = r" by (simp add: last_conv_nth)
qed

lemma writes_ok_no_failure:
  assumes "\<forall>e \<in> set ws. 0 \<le> snd e" "1 \<le> K" "K \<le> length ws" "snd (ws ! (K - 1)) < (0::int)"
  shows False
proof -
  from assms(2,3) have "ws ! (K - 1) \<in> set ws" by simp
  with assms(1,4) show False by force
qed

lemma clockwork_prepare_rollback:
  fixes s :: "clockwork_cwu50_panel world"
  assumes res: "res = clockwork_cwu50_prepare tbl env s"
    and K: "1 \<le> K" "K \<le> length (dcs_writes (emitted s (snd res)))"
      "snd (dcs_writes (emitted s (snd res)) ! (K - 1)) < 0"
  shows "length (succeeded_writes (emitted s (snd res))) = K - 1
     \<and> length (failed_writes (emitted s (snd res))) = 1
     \<and> map fst (dcs_writes (emitted s (snd res))) = map (write_op (dsi (ctx s))) (take K tbl)
     \<and> fst res = snd (dcs_writes (emitted s (snd res)) ! (K - 1))
     \<and> map fst (emitted s (snd res))
          = clockwork_power_on (ctx s) @ map (write_op (dsi (ctx s))) (take K tbl)
            @ clockwork_rollback (ctx s)
     \<and> gpio_level (reset_gpio (ctx s)) (trace (snd res)) = Some 0"
  using res
proof (cases rule: clockwork_prepare_cases)
  case iovcc_failed
  then have "dcs_writes (emitted s (snd res)) = []"
    by (simp add: emitted_def dcs_writes_def)
  with K show ?thesis by simp
next
  case (vci_failed r1 r3)
  then have "dcs_writes (emitted s (snd res)) = []"
    by (simp add: emitted_def dcs_writes_def)
  with K show ?thesis by simp
next
  case (succeeded pre ws)
  then have "dcs_writes (emitted s (snd res)) = ws"
    by (simp add: emitted_def dcs_writes_append dcs_writes_power_on dcs_writes_all)
  with K succeeded(7) writes_ok_no_failure[of ws K] show ?thesis by simp
next
  case (init_failed pre ws rb)
  have em: "emitted s (snd res) = pre @ ws @ rb"
    using init_failed(3) by (simp add: emitted_def)
  have w: "dcs_writes (emitted s (snd res)) = ws"
    using init_failed by (simp add: em dcs_writes_append dcs_writes_power_on dcs_writes_all)
  note sh = writes_failed_shape[OF init_failed(6,7,8,9,10,1) K(1) K(2,3)[unfolded w]]
  have "map fst (emitted s (snd res))
          = clockwork_power_on (ctx s) @ map (write_op (dsi (ctx s))) (take K tbl)
            @ clockwork_rollback (ctx s)"
    using init_failed(4,11) sh(4) by (simp add: em)
  moreover have "gpio_level (reset_gpio (ctx s)) (trace (snd res)) = Some 0"
    using init_failed(4,8,11)
    by (simp add: init_failed(3) gpio_level_def gpio_step_writes clockwork_rollback_def)
  ultimately show ?thesis
    using sh by (simp add: w succeeded_writes_def failed_writes_def)
qed

lemma cw_prepare_rollback:
  fixes s :: "cw_cwu50_panel world"
  assumes res: "res = cw_cwu50_prepare tbl env s"
    and K: "1 \<le> K" "K \<le> length (dcs_writes (emitted s (snd res)))"
      "snd (dcs_writes (emitted s (snd res)) ! (K - 1)) < 0"
  shows "length (succeeded_writes (emitted s (snd res))) = K - 1
     \<and> length (failed_writes (emitted s (snd res))) = 1
     \<and> map fst (dcs_writes (emitted s (snd res))) = map (write_op (dsi (ctx s))) (take K tbl)
     \<and> fst res = snd (dcs_writes (emitted s (snd res)) ! (K - 1))
     \<and> map fst (emitted s (snd res))
          = cw_power_on (ctx s) @ map (write_op (dsi (ctx s))) (take K tbl) @ cw_rollback (ctx s)
     \<and> gpio_level (reset_gpio (ctx s)) (trace (snd res)) = Some 0
     \<and> \<not> prepared (ctx (snd res))"
  using res
proof (cases rule: cw_prepare_cases)
  case already
  then have "dcs_writes (emitted s (snd res)) = []"
    by (simp add: emitted_def dcs_writes_def)
  with K show ?thesis by simp
next
  case iovcc_failed
  then have "dcs_writes (emitted s (snd res)) = []"
    by (simp add: emitted_def dcs_writes_def)
  with K show ?thesis by simp
next
  case (vci_failed r1 r3)
  then have "dcs_writes (emitted s (snd res)) = []"
    by (simp add: emitted_def dcs_writes_def)
  with K show ?thesis by simp
next
  case (succeeded pre ws r)
  then have "dcs_writes (emitted s (snd res)) = ws"
    by (simp add: emitted_def dcs_writes_append dcs_writes_power_on dcs_writes_all)
       (simp add: dcs_writes_def)
  with K succeeded(9) writes_ok_no_failure[of ws K] show ?thesis by simp
next
  case (sleep_out_failed pre ws rb)
  have "dcs_writes ((Dcs_exit_sleep_mode (dsi (ctx s)), fst res) # rb) = []"
    using dcs_writes_power_on(4)[OF sleep_out_failed(9)] by (simp add: dcs_writes_def)
  with sleep_out_failed have "dcs_writes (emitted s (snd res)) = ws"
    by (simp add: emitted_def dcs_writes_append dcs_writes_power_on dcs_writes_all)
  with K sleep_out_failed(8) writes_ok_no_failure[of ws K] show ?thesis by simp
next
  case (init_failed pre ws rb)
  have em: "emitted s (snd res) = pre @ ws @ rb"
    using init_failed(4) by (simp add: emitted_def)
  have w: "dcs_writes (emitted s (snd res)) = ws"
    using init_failed by (simp add: em dcs_writes_append dcs_writes_power_on dcs_writes_all)
  note sh = writes_failed_shape[OF init_failed(7,8,9,10,11,2) K(1) K(2,3)[unfolded w]]
  have "map fst (emitted s (snd res))
          = cw_power_on (ctx s) @ map (write_op (dsi (ctx s))) (take K tbl) @ cw_rollback (ctx s)"
    using init_failed(5,12) sh(4) by (simp add: em)
  moreover have "gpio_level (reset_gpio (ctx s)) (trace (snd res)) = Some 0"
    using init_failed(5,9,12)
    by (simp add: init_failed(4) gpio_level_def gpio_step_writes cw_rollback_def)
  ultimately show ?thesis
    using sh init_failed(1,3) by (simp add: w succeeded_writes_def failed_writes_def)
qed

lemma clockwork_second_write_fails:
  "clockwork_cwu50_prepare clockwork_cwu50_panel_init_cmds (env_fail_at 10 (- 5)) clockwork_boot
   = (- 5, clockwork_boot\<lparr>trace :=
        [(Regulator_enable (Regulator 1), 0), (Usleep_range 1000 5000, 0),
         (Regulator_enable (Regulator 0), 0),
         (Gpiod_set_value_cansleep (Gpio 0) 1, 0), (Usleep_range 5000 10000, 0),
         (Gpiod_set_value_cansleep (Gpio 0) 0, 0), (Usleep_range 1000 10000, 0),
         (Gpiod_set_value_cansleep (Gpio 0) 1, 0), (Usleep_range 10000 20000, 0),
         (Dcs_write_buffer (Dsi 0) [0xE0, 0x00], 0),
         (Dcs_write_buffer (Dsi 0) [0xE1, 0x93], - 5),
         (Gpiod_set_value_cansleep (Gpio 0) 0, 0), (Usleep_range 10000 20000, 0),
         (Regulator_disable (Regulator 0), 0), (Usleep_range 5000 20000, 0),
         (Regulator_disable (Regulator 1), 0)],
       klog := [Dev_err_ratelimited ''sending command %#02x failed: %d'' [225, - 5],
                Dev_err ''Failed to initialize panel: %d'' [- 5]]\<rparr>)"
  by (simp add: clockwork_defs prim_defs env_fail_at_def clockwork_boot_def clockwork_handle_def
      clockwork_cwu50_panel_init_cmds_def cmd_data_def CWU50_INIT_CMD_LEN_def Let_def)

lemma cw_second_write_fails:
  "cw_cwu50_prepare cw_cwu50_panel_init_cmds (env_fail_at 9 (- 5)) cw_boot
   = (- 5, cw_boot\<lparr>trace :=
        [(Regulator_enable (Regulator 1), 0), (Regulator_enable (Regulator 0), 0),
         (Gpiod_set_value_cansleep (Gpio 0) 1, 0), (Usleep_range 10000 20000, 0),
         (Gpiod_set_value_cansleep (Gpio 0) 0, 0), (Usleep_range 10000 20000, 0),
         (Gpiod_set_value_cansleep (Gpio 0) 1, 0), (Msleep 120, 0),
         (Dcs_write_buffer (Dsi 0) [0xE0, 0x00], 0),
         (Dcs_write_buffer (Dsi 0) [0xE1, 0x93], - 5),
         (Gpiod_set_value_cansleep (Gpio 0) 0, 0),
         (Regulator_disable (Regulator 0), 0), (Regulator_disable (Regulator 1), 0)],
       klog := [Dev_err_ratelimited ''sending command %#02x failed: %d'' [225, - 5],
                Dev_err ''Failed to initialize panel: %d'' [- 5]]\<rparr>)"
  by (simp add: cw_defs prim_defs env_fail_at_def cw_boot_def cw_handle_def
      cw_cwu50_panel_init_cmds_def cmd_data_def CWU50_INIT_CMD_LEN_def Let_def)

lemma trace_boot: "trace clockwork_boot = []" "trace cw_boot = []" "trace cw_prepared = []"
  by (simp_all add: clockwork_boot_def cw_boot_def cw_prepared_def)

lemma ctx_boot: "ctx clockwork_boot = clockwork_handle" "ctx cw_boot = cw_handle"
  "ctx cw_prepared = cw_handle\<lparr>prepared := True\<rparr>"
  by (simp_all add: clockwork_boot_def cw_boot_def cw_prepared_def)


section \<open>The prepared flag\<close>

lemmas enable_disable_defs = clockwork_cwu50_enable_def clockwork_cwu50_disable_def
  clockwork_cwu50_unprepare_def cw_cwu50_enable_def cw_cwu50_disable_def cw_cwu50_unprepare_def

lemma enable_disable_ctx:
  "ctx (snd (clockwork_cwu50_enable env sc)) = ctx sc"
  "ctx (snd (clockwork_cwu50_disable env sc)) = ctx sc"
  "ctx (snd (cw_cwu50_enable env sw)) = ctx sw"
  "ctx (snd (cw_cwu50_disable env sw)) = ctx sw"
  by (simp_all add: enable_disable_defs prim_defs Let_def)

lemma cw_prepare_guard: "prepared (ctx s) \<Longrightarrow> cw_cwu50_prepare tbl env s = (0, s)"
  by (simp add: cw_cwu50_prepare_def)

lemma cw_prepare_sets_flag:
  assumes "fst (cw_cwu50_prepare tbl env s) = 0"
  shows "prepared (ctx (snd (cw_cwu50_prepare tbl env s)))"
proof -
  define res where "res = cw_cwu50_prepare tbl env s"
  from res_def have "prepared (ctx (snd res))"
    by (cases rule: cw_prepare_cases) (use assms in \<open>simp_all add: res_def\<close>)
  then show ?thesis by (simp add: res_def)
qed

lemma clockwork_prepare_starts:
  fixes s :: "clockwork_cwu50_panel world"
  shows "emitted s (snd (clockwork_cwu50_prepare tbl env s)) \<noteq> []
    \<and> fst (hd (emitted s (snd (clockwork_cwu50_prepare tbl env s))))
        = Regulator_enable (iovcc (ctx s))"
proof -
  define res where "res = clockwork_cwu50_prepare tbl env s"
  have pre: "pre \<noteq> [] \<and> fst (hd pre) = Regulator_enable (iovcc (ctx s))"
    if "map fst pre = clockwork_power_on (ctx s)" for pre :: "hw_event list"
    using that by (cases pre) (simp_all add: clockwork_power_on_def)
  from res_def have "emitted s (snd res) \<noteq> []
    \<and> fst (hd (emitted s (snd res))) = Regulator_enable (iovcc (ctx s))"
  proof (cases rule: clockwork_prepare_cases)
    case (succeeded pre ws)
    with pre[of pre] show ?thesis by (simp add: emitted_def)
  next
    case (init_failed pre ws rb)
    with pre[of pre] show ?thesis by (simp add: emitted_def)
  qed (simp_all add: emitted_def)
  then show ?thesis by (simp add: res_def)
qed


section \<open>Unprepare with failing regulators\<close>

lemma clockwork_unprepare_disable_fails:
  "clockwork_cwu50_unprepare env_disable_fails clockwork_boot
   = (0, clockwork_boot\<lparr>trace :=
        [(Gpiod_set_value_cansleep (Gpio 0) 0, 0), (Usleep_range 1000 10000, 0),
         (Regulator_disable (Regulator 0), - 5), (Usleep_range 1000 20000, 0),
         (Regulator_disable (Regulator 1), - 5)],
       klog := [Dev_err ''Failed to disable vci supply: %d'' [- 5],
                Dev_err ''Failed to disable iovcc supply: %d'' [- 5]]\<rparr>)"
  by (simp add: clockwork_cwu50_unprepare_def prim_defs clockwork_boot_def clockwork_handle_def
      Let_def)

lemma cw_unprepare_disable_fails:
  "cw_cwu50_unprepare env_disable_fails cw_prepared
   = (0, cw_prepared\<lparr>ctx := cw_handle, trace :=
        [(Dcs_set_display_off (Dsi 0), 0), (Msleep 20, 0),
         (Dcs_enter_sleep_mode (Dsi 0), 0), (Msleep 120, 0),
         (Gpiod_set_value_cansleep (Gpio 0) 0, 0), (Msleep 20, 0),
         (Regulator_disable (Regulator 0), - 5), (Usleep_range 1000 20000, 0),
         (Regulator_disable (Regulator 1), - 5)],
       klog := [Dev_err ''failed to disable vci supply: %d'' [- 5],
                Dev_err ''failed to disable iovcc supply: %d'' [- 5]]\<rparr>)"
  by (simp add: cw_cwu50_unprepare_def prim_defs cw_prepared_def cw_handle_def Let_def)


section \<open>Runs of the command transmitter\<close>

lemma clockwork_init_sequence_cases:
  fixes s :: "clockwork_cwu50_panel world"
  assumes "res = clockwork_cwu50_init_sequence tbl env s"
  obtains (completed) "fst res = 0" "klog (snd res) = klog s" "ctx (snd res) = ctx s"
      "trace (snd res) = trace s @ emitted s (snd res)"
      "map fst (emitted s (snd res)) = map (write_op (dsi (ctx s))) tbl"
      "\<forall>e \<in> set (emitted s (snd res)). 0 \<le> snd e"
  | (failed) "fst res < 0" "ctx (snd res) = ctx s"
      "trace (snd res) = trace s @ emitted s (snd res)"
      "emitted s (snd res) \<noteq> []" "length (emitted s (snd res)) \<le> length tbl"
      "map fst (emitted s (snd res))
         = map (write_op (dsi (ctx s))) (take (length (emitted s (snd res))) tbl)"
      "\<forall>e \<in> set (butlast (emitted s (snd res))). 0 \<le> snd e"
      "snd (last (emitted s (snd res))) = fst res"
      "klog (snd res) = klog s @ [Dev_err_ratelimited ''sending command %#02x failed: %d''
           [uint (fst (tbl ! (length (emitted s (snd res)) - 1))), fst res]]"
proof -
  obtain lr s1 where loop: "cwu50_init_loop env (dsi (ctx s)) tbl s = (lr, s1)"
    by (cases "cwu50_init_loop env (dsi (ctx s)) tbl s")
  have "(lr, s1) = cwu50_init_loop env (dsi (ctx s)) tbl s" by (simp add: loop)
  then show ?thesis
  proof (cases rule: init_loop_cases)
    case c: (completed ws)
    with loop show ?thesis
      by (intro completed) (simp_all add: assms clockwork_cwu50_init_sequence_def emitted_def)
  next
    case f: (failed r ws)
    with loop show ?thesis
      by (intro failed) (simp_all add: assms clockwork_cwu50_init_sequence_def emitted_def)
  qed
qed

lemma cw_init_sequence_cases:
  fixes s :: "cw_cwu50_panel world"
  assumes "res = cw_cwu50_init_sequence tbl env s" "\<not> prepared (ctx s)"
  obtains (completed) r where "fst res = 0" "klog (snd res) = klog s" "ctx (snd res) = ctx s"
      "trace (snd res) = trace s @ emitted s (snd res)" "0 \<le> r"
      "emitted s (snd res)
         = dcs_writes (emitted s (snd res)) @ [(Dcs_exit_sleep_mode (dsi (ctx s)), r)]"
      "map fst (dcs_writes (emitted s (snd res))) = map (write_op (dsi (ctx s))) tbl"
      "\<forall>e \<in> set (dcs_writes (emitted s (snd res))). 0 \<le> snd e"
  | (sleep_out_failed) "fst res < 0" "ctx (snd res) = ctx s"
      "trace (snd res) = trace s @ emitted s (snd res)"
      "emitted s (snd res)
         = dcs_writes (emitted s (snd res)) @ [(Dcs_exit_sleep_mode (dsi (ctx s)), fst res)]"
      "map fst (dcs_writes (emitted s (snd res))) = map (write_op (dsi (ctx s))) tbl"
      "\<forall>e \<in> set (dcs_writes (emitted s (snd res))). 0 \<le> snd e"
      "klog (snd res) = klog s @ [Dev_err ''failed to exit sleep mode at init: %d'' [fst res]]"
  | (failed) "fst res < 0" "ctx (snd res) = ctx s"
      "trace (snd res) = trace s @ emitted s (snd res)"
      "emitted s (snd res) = dcs_writes (emitted s (snd res))"
      "emitted s (snd res) \<noteq> []" "length (emitted s (snd res)) \<le> length tbl"
      "map fst (emitted s (snd res))
         = map (write_op (dsi (ctx s))) (take (length (emitted s (snd res))) tbl)"
      "\<forall>e \<in> set (butlast (emitted s (snd res))). 0 \<le> snd e"
      "snd (last (emitted s (snd res))) = fst res"
      "klog (snd res) = klog s @ [Dev_err_ratelimited ''sending command %#02x failed: %d''
           [uint (fst (tbl ! (length (emitted s (snd res)) - 1))), fst res]]"
proof -
  obtain lr s1 where loop: "cwu50_init_loop env (dsi (ctx s)) tbl s = (lr, s1)"
    by (cases "cwu50_init_loop env (dsi (ctx s)) tbl s")
  have "(lr, s1) = cwu50_init_loop env (dsi (ctx s)) tbl s" by (simp add: loop)
  then show ?thesis
  proof (cases rule: init_loop_cases)
    case c: (completed ws)
    define r where "r = env (trace s1) (Dcs_exit_sleep_mode (dsi (ctx s)))"
    have w: "dcs_writes ws = ws" using c(5) by (rule dcs_writes_all)
    have em: "emitted s (snd res) = ws @ [(Dcs_exit_sleep_mode (dsi (ctx s)), r)]"
      using c loop assms(2)
      by (simp add: assms(1) cw_cwu50_init_sequence_def emitted_def prim_defs r_def Let_def)
    then have dw: "dcs_writes (emitted s (snd res)) = ws"
      by (simp add: dcs_writes_append w) (simp add: dcs_writes_def)
    have basics: "ctx (snd res) = ctx s" "trace (snd res) = trace s @ emitted s (snd res)"
      "fst res = (if r < 0 then r else 0)"
      "klog (snd res) = (if r < 0
          then klog s @ [Dev_err ''failed to exit sleep mode at init: %d'' [r]] else klog s)"
      using c loop assms(2)
      by (simp_all add: assms(1) cw_cwu50_init_sequence_def emitted_def prim_defs r_def Let_def)
    show ?thesis
    proof (cases "r < 0")
      case True
      with basics c(5,6) show ?thesis
        by (intro sleep_out_failed) (simp_all add: dw, simp add: em)
    next
      case False
      with basics c(5,6) show ?thesis
        by (intro completed[of r]) (simp_all add: dw, simp add: em)
    qed
  next
    case f: (failed r ws)
    have w: "dcs_writes ws = ws" using f(7) by (rule dcs_writes_all)
    from f loop assms(2) have em: "emitted s (snd res) = ws"
      by (simp add: assms(1) cw_cwu50_init_sequence_def emitted_def)
    from f loop assms(2) have basics: "ctx (snd res) = ctx s" "trace (snd res) = trace s @ ws"
      "fst res = r" "klog (snd res) = klog s @ [Dev_err_ratelimited ''sending command %#02x failed: %d''
           [uint (fst (tbl ! (length ws - 1))), r]]"
      by (simp_all add: assms(1) cw_cwu50_init_sequence_def)
    with f show ?thesis
      by (intro failed) (simp_all add: em w)
  qed
qed

lemma all_ok_last_failed:
  fixes ws :: "hw_event list"
  assumes "ws \<noteq> []" "snd (last ws) < 0" "list_all (\<lambda>e. 0 \<le> snd e) ws"
  shows False
proof -
  from assms(1) have "last ws \<in> set ws" by simp
  with assms(2,3) show False by (force simp: list_all_iff)
qed

lemma clockwork_init_first_write_fails:
  "clockwork_cwu50_init_sequence clockwork_cwu50_panel_init_cmds (env_fail_at 0 (- 5))
     clockwork_boot
   = (- 5, clockwork_boot\<lparr>trace := [(Dcs_write_buffer (Dsi 0) [0xE0, 0x00], - 5)],
       klog := [Dev_err_ratelimited ''sending command %#02x failed: %d'' [224, - 5]]\<rparr>)"
  by (simp add: clockwork_defs prim_defs env_fail_at_def clockwork_boot_def clockwork_handle_def
      clockwork_cwu50_panel_init_cmds_def cmd_data_def CWU50_INIT_CMD_LEN_def Let_def)

lemma clockwork_init_ninth_write_fails:
  "clockwork_cwu50_init_sequence clockwork_cwu50_panel_init_cmds (env_fail_at 8 (- 5))
     clockwork_boot
   = (- 5, clockwork_boot\<lparr>trace :=
        [(Dcs_write_buffer (Dsi 0) [0xE0, 0x00], 0), (Dcs_write_buffer (Dsi 0) [0xE1, 0x93], 0),
         (Dcs_write_buffer (Dsi 0) [0xE2, 0x65], 0), (Dcs_write_buffer (Dsi 0) [0xE3, 0xF8], 0),
         (Dcs_write_buffer (Dsi 0) [0x70, 0x20], 0), (Dcs_write_buffer (Dsi 0) [0x71, 0x13], 0),
         (Dcs_write_buffer (Dsi 0) [0x72, 0x06], 0), (Dcs_write_buffer (Dsi 0) [0x75, 0x03], 0),
         (Dcs_write_buffer (Dsi 0) [0xE0, 0x01], - 5)],
       klog := [Dev_err_ratelimited ''sending command %#02x failed: %d'' [224, - 5]]\<rparr>)"
  by (simp add: clockwork_defs prim_defs env_fail_at_def clockwork_boot_def clockwork_handle_def
      clockwork_cwu50_panel_init_cmds_def cmd_data_def CWU50_INIT_CMD_LEN_def Let_def)

lemma cw_init_ninth_write_fails:
  "cw_cwu50_init_sequence cw_cwu50_panel_init_cmds (env_fail_at 8 (- 5)) cw_boot
   = (- 5, cw_boot\<lparr>trace :=
        [(Dcs_write_buffer (Dsi 0) [0xE0, 0x00], 0), (Dcs_write_buffer (Dsi 0) [0xE1, 0x93], 0),
         (Dcs_write_buffer (Dsi 0) [0xE2, 0x65], 0), (Dcs_write_buffer (Dsi 0) [0xE3, 0xF8], 0),
         (Dcs_write_buffer (Dsi 0) [0x70, 0x20], 0), (Dcs_write_buffer (Dsi 0) [0x71, 0x13], 0),
         (Dcs_write_buffer (Dsi 0) [0x72, 0x06], 0), (Dcs_write_buffer (Dsi 0) [0x75, 0x03], 0),
         (Dcs_write_buffer (Dsi 0) [0xE0, 0x01], - 5)],
       klog := [Dev_err_ratelimited ''sending command %#02x failed: %d'' [224, - 5]]\<rparr>)"
  by (simp add: cw_defs prim_defs env_fail_at_def cw_boot_def cw_handle_def
      cw_cwu50_panel_init_cmds_def cmd_data_def CWU50_INIT_CMD_LEN_def Let_def)

lemma clockwork_init_env_ok:
  "clockwork_cwu50_init_sequence tbl env_ok s
     = (0, s\<lparr>trace := trace s @ map (\<lambda>c. (write_op (dsi (ctx s)) c, 0)) tbl\<rparr>)"
  by (simp add: clockwork_cwu50_init_sequence_def init_loop_env_ok)


section \<open>Runs of enable and disable\<close>

lemma clockwork_enable_cases:
  fixes s :: "clockwork_cwu50_panel world"
  assumes "res = clockwork_cwu50_enable env s"
  obtains (sleep_out_failed) "fst res < 0" "ctx (snd res) = ctx s"
      "trace (snd res) = trace s @ [(Dcs_exit_sleep_mode (dsi (ctx s)), fst res)]"
  | (display_on_failed) r1 where "fst res < 0" "ctx (snd res) = ctx s" "0 \<le> r1"
      "trace (snd res) = trace s @ [(Dcs_exit_sleep_mode (dsi (ctx s)), r1), (Msleep 120, 0),
           (Dcs_set_display_on (dsi (ctx s)), fst res)]"
  | (tear_on_failed) r1 r2 where "fst res < 0" "ctx (snd res) = ctx s" "0 \<le> r1" "0 \<le> r2"
      "trace (snd res) = trace s @ [(Dcs_exit_sleep_mode (dsi (ctx s)), r1), (Msleep 120, 0),
           (Dcs_set_display_on (dsi (ctx s)), r2), (Msleep 10, 0),
           (Dcs_set_tear_on (dsi (ctx s)) MIPI_DSI_DCS_TEAR_MODE_VBLANK, fst res)]"
  | (succeeded) r1 r2 r3 where "fst res = 0" "ctx (snd res) = ctx s" "0 \<le> r1" "0 \<le> r2"
      "0 \<le> r3"
      "trace (snd res) = trace s @ [(Dcs_exit_sleep_mode (dsi (ctx s)), r1), (Msleep 120, 0),
           (Dcs_set_display_on (dsi (ctx s)), r2), (Msleep 10, 0),
           (Dcs_set_tear_on (dsi (ctx s)) MIPI_DSI_DCS_TEAR_MODE_VBLANK, r3)]"
proof -
  define r1 where "r1 = env (trace s) (Dcs_exit_sleep_mode (dsi (ctx s)))"
  define t1 where "t1 = trace s @ [(Dcs_exit_sleep_mode (dsi (ctx s)), r1), (Msleep 120, 0)]"
  define r2 where "r2 = env t1 (Dcs_set_display_on (dsi (ctx s)))"
  define t2 where "t2 = t1 @ [(Dcs_set_display_on (dsi (ctx s)), r2), (Msleep 10, 0)]"
  define r3 where "r3 = env t2 (Dcs_set_tear_on (dsi (ctx s)) MIPI_DSI_DCS_TEAR_MODE_VBLANK)"
  note defs = assms clockwork_cwu50_enable_def call_defs world_simps split_beta
    r1_def r2_def r3_def t1_def t2_def
  consider (a) "r1 < 0" | (b) "0 \<le> r1" "r2 < 0" | (c) "0 \<le> r1" "0 \<le> r2" "r3 < 0"
    | (d) "0 \<le> r1" "0 \<le> r2" "0 \<le> r3" by linarith
  then show ?thesis
  proof cases
    case a
    then show ?thesis by (intro sleep_out_failed) (simp_all add: defs)
  next
    case b
    then show ?thesis by (intro display_on_failed[of r1]) (simp_all add: defs)
  next
    case c
    then show ?thesis by (intro tear_on_failed[of r1 r2]) (simp_all add: defs)
  next
    case d
    then show ?thesis by (intro succeeded[of r1 r2 r3]) (simp_all add: defs)
  qed
qed

lemma cw_enable_cases:
  fixes s :: "cw_cwu50_panel world"
  assumes "res = cw_cwu50_enable env s"
  obtains (display_on_failed) "fst res < 0" "ctx (snd res) = ctx s"
      "trace (snd res) = trace s @ [(Msleep 120, 0), (Dcs_set_display_on (dsi (ctx s)), fst res)]"
  | (tear_on_failed) r2 where "fst res < 0" "ctx (snd res) = ctx s" "0 \<le> r2"
      "trace (snd res) = trace s @ [(Msleep 120, 0),
           (Dcs_set_display_on (dsi (ctx s)), r2), (Msleep 20, 0),
           (Dcs_set_tear_on (dsi (ctx s)) MIPI_DSI_DCS_TEAR_MODE_VBLANK, fst res)]"
  | (succeeded) r2 r3 where "fst res = 0" "ctx (snd res) = ctx s" "0 \<le> r2" "0 \<le> r3"
      "trace (snd res) = trace s @ [(Msleep 120, 0),
           (Dcs_set_display_on (dsi (ctx s)), r2), (Msleep 20, 0),
           (Dcs_set_tear_on (dsi (ctx s)) MIPI_DSI_DCS_TEAR_MODE_VBLANK, r3)]"
proof -
  define t1 where "t1 = trace s @ [(Msleep 120, 0)]"
  define r2 where "r2 = env t1 (Dcs_set_display_on (dsi (ctx s)))"
  define t2 where "t2 = t1 @ [(Dcs_set_display_on (dsi (ctx s)), r2), (Msleep 20, 0)]"
  define r3 where "r3 = env t2 (Dcs_set_tear_on (dsi (ctx s)) MIPI_DSI_DCS_TEAR_MODE_VBLANK)"
  note defs = assms cw_cwu50_enable_def call_defs world_simps split_beta
    r2_def r3_def t1_def t2_def
  consider (b) "r2 < 0" | (c) "0 \<le> r2" "r3 < 0" | (d) "0 \<le> r2" "0 \<le> r3" by linarith
  then show ?thesis
  proof cases
    case b
    then show ?thesis by (intro display_on_failed) (simp_all add: defs)
  next
    case c
    then show ?thesis by (intro tear_on_failed[of r2]) (simp_all add: defs)
  next
    case d
    then show ?thesis by (intro succeeded[of r2 r3]) (simp_all add: defs)
  qed
qed

lemma clockwork_disable_cases:
  fixes s :: "clockwork_cwu50_panel world"
  assumes "res = clockwork_cwu50_disable env s"
  obtains (display_off_failed) "fst res < 0" "ctx (snd res) = ctx s"
      "trace (snd res) = trace s @ [(Dcs_set_display_off (dsi (ctx s)), fst res)]"
  | (sleep_in_failed) r1 where "fst res < 0" "ctx (snd res) = ctx s" "0 \<le> r1"
      "trace (snd res) = trace s @ [(Dcs_set_display_off (dsi (ctx s)), r1), (Msleep 50, 0),
           (Dcs_enter_sleep_mode (dsi (ctx s)), fst res)]"
  | (succeeded) r1 r2 where "fst res = 0" "ctx (snd res) = ctx s" "0 \<le> r1" "0 \<le> r2"
      "trace (snd res) = trace s @ [(Dcs_set_display_off (dsi (ctx s)), r1), (Msleep 50, 0),
           (Dcs_enter_sleep_mode (dsi (ctx s)), r2), (Msleep 100, 0)]"
proof -
  define r1 where "r1 = env (trace s) (Dcs_set_display_off (dsi (ctx s)))"
  define t1 where "t1 = trace s @ [(Dcs_set_display_off (dsi (ctx s)), r1), (Msleep 50, 0)]"
  define r2 where "r2 = env t1 (Dcs_enter_sleep_mode (dsi (ctx s)))"
  note defs = assms clockwork_cwu50_disable_def call_defs world_simps split_beta
    r1_def r2_def t1_def
  consider (a) "r1 < 0" | (b) "0 \<le> r1" "r2 < 0" | (c) "0 \<le> r1" "0 \<le> r2" by linarith
  then show ?thesis
  proof cases
    case a
    then show ?thesis by (intro display_off_failed) (simp_all add: defs)
  next
    case b
    then show ?thesis by (intro sleep_in_failed[of r1]) (simp_all add: defs)
  next
    case c
    then show ?thesis by (intro succeeded[of r1 r2]) (simp_all add: defs)
  qed
qed

lemma cw_disable_run:
  fixes s :: "cw_cwu50_panel world"
  shows "ctx (snd (cw_cwu50_disable env s)) = ctx s"
    "trace (snd (cw_cwu50_disable env s))
       = trace s @ [(Dcs_set_display_off (dsi (ctx s)), fst (cw_cwu50_disable env s))]"
    "klog (snd (cw_cwu50_disable env s)) = klog s"
  by (simp_all add: cw_cwu50_disable_def call_defs world_simps)

lemma enable_env_ok:
  "clockwork_cwu50_enable env_ok sc
     = (0, sc\<lparr>trace := trace sc @
          [(Dcs_exit_sleep_mode (dsi (ctx sc)), 0), (Msleep 120, 0),
           (Dcs_set_display_on (dsi (ctx sc)), 0), (Msleep 10, 0),
           (Dcs_set_tear_on (dsi (ctx sc)) MIPI_DSI_DCS_TEAR_MODE_VBLANK, 0)]\<rparr>)"
  "cw_cwu50_enable env_ok sw
     = (0, sw\<lparr>trace := trace sw @
          [(Msleep 120, 0), (Dcs_set_display_on (dsi (ctx sw)), 0), (Msleep 20, 0),
           (Dcs_set_tear_on (dsi (ctx sw)) MIPI_DSI_DCS_TEAR_MODE_VBLANK, 0)]\<rparr>)"
  by (simp_all add: clockwork_cwu50_enable_def cw_cwu50_enable_def prim_defs env_ok_def)

lemma disable_env_ok:
  "clockwork_cwu50_disable env_ok sc
     = (0, sc\<lparr>trace := trace sc @
          [(Dcs_set_display_off (dsi (ctx sc)), 0), (Msleep 50, 0),
           (Dcs_enter_sleep_mode (dsi (ctx sc)), 0), (Msleep 100, 0)]\<rparr>)"
  "cw_cwu50_disable env_ok sw
     = (0, sw\<lparr>trace := trace sw @ [(Dcs_set_display_off (dsi (ctx sw)), 0)]\<rparr>)"
  by (simp_all add: clockwork_cwu50_disable_def cw_cwu50_disable_def prim_defs env_ok_def)

lemma clockwork_display_on_fails:
  "clockwork_cwu50_enable (env_fail_at 2 (- 5)) clockwork_boot
   = (- 5, clockwork_boot\<lparr>trace :=
        [(Dcs_exit_sleep_mode (Dsi 0), 0), (Msleep 120, 0), (Dcs_set_display_on (Dsi 0), - 5)],
       klog := [Dev_err ''Failed to turn display on: %d'' [- 5]]\<rparr>)"
  by (simp add: clockwork_cwu50_enable_def prim_defs env_fail_at_def clockwork_boot_def
      clockwork_handle_def)

lemma cw_display_on_fails:
  "cw_cwu50_enable (env_fail_at 1 (- 5)) cw_prepared
   = (- 5, cw_prepared\<lparr>trace := [(Msleep 120, 0), (Dcs_set_display_on (Dsi 0), - 5)],
       klog := [Dev_err ''failed to set display on: %d'' [- 5]]\<rparr>)"
  by (simp add: cw_cwu50_enable_def prim_defs env_fail_at_def cw_prepared_def cw_handle_def)

lemma cw_init_env_ok:
  "\<not> prepared (ctx s) \<Longrightarrow>
   cw_cwu50_init_sequence tbl env_ok s
     = (0, s\<lparr>trace := trace s @ map (\<lambda>c. (write_op (dsi (ctx s)) c, 0)) tbl
                  @ [(Dcs_exit_sleep_mode (dsi (ctx s)), 0)]\<rparr>)"
  by (simp add: cw_cwu50_init_sequence_def init_loop_env_ok prim_defs env_ok_def)


lemma init_loop_env_fail_later:
  "length (trace s) + length tbl \<le> n \<Longrightarrow>
   cwu50_init_loop (env_fail_at n code) d tbl s
     = (None, s\<lparr>trace := trace s @ map (\<lambda>c. (write_op d c, 0)) tbl\<rparr>)"
  by (induction tbl arbitrary: s) (simp_all add: prim_defs env_fail_at_def write_op_def)

lemma cw_init_sleep_out_fails:
  assumes "\<not> prepared (ctx s)" "trace s = []" "code < 0"
  shows "cw_cwu50_init_sequence tbl (env_fail_at (length tbl) code) s
     = (code, s\<lparr>trace := map (\<lambda>c. (write_op (dsi (ctx s)) c, 0)) tbl
                      @ [(Dcs_exit_sleep_mode (dsi (ctx s)), code)],
                klog := klog s @ [Dev_err ''failed to exit sleep mode at init: %d'' [code]]\<rparr>)"
proof -
  have "length (trace s) + length tbl \<le> length tbl" using assms(2) by simp
  from init_loop_env_fail_later [OF this, of code "dsi (ctx s)"] assms show ?thesis
    by (simp add: cw_cwu50_init_sequence_def prim_defs env_fail_at_def)
qed

lemma writes_then_one:
  "dcs_writes (map (\<lambda>c. (write_op d c, r)) tbl @ [(Dcs_exit_sleep_mode d', r')])
     = map (\<lambda>c. (write_op d c, r)) tbl"
  by (induction tbl) (simp_all add: dcs_writes_def write_op_def)

section \<open>The claims\<close>

subsection \<open>Order of a successful prepare\<close>





subsection \<open>Rollback when a command fails\<close>

text \<open>
  C2. For every table of N entries and every K with 1 \<le> K \<le> N: if the K-th transport
  write of a prepare call fails, then exactly K - 1 successful writes and one failed
  write were issued, they are the first K table entries in order (no entry after the
  K-th is attempted), prepare returns the failing write's error code, the whole call
  is the power-on sequence, these K writes and then the rollback (reset line driven to
  0, then \<^verbatim>\<open>regulator_disable\<close> called on VCI and then on IOVCC, whose return
  values the driver ignores), and the level last driven on the reset line is 0. This
  holds in both drivers; in panel-cw-cwu50.c the \<open>prepared\<close> flag is moreover clear
  afterwards.
\<close>

theorem prepare_rollback:
  fixes sc :: "clockwork_cwu50_panel world" and sw :: "cw_cwu50_panel world"
    and tbl :: "cwu50_init_cmd list" and env env' :: env and K :: nat
  defines "rc \<equiv> clockwork_cwu50_prepare tbl env sc"
    and "rw \<equiv> cw_cwu50_prepare tbl env' sw"
  assumes "1 \<le> K" and "K \<le> length tbl"
  shows
  "(K \<le> length (dcs_writes (emitted sc (snd rc)))
      \<and> snd (dcs_writes (emitted sc (snd rc)) ! (K - 1)) < 0 \<longrightarrow>
        length (succeeded_writes (emitted sc (snd rc))) = K - 1
      \<and> length (failed_writes (emitted sc (snd rc))) = 1
      \<and> map fst (dcs_writes (emitted sc (snd rc))) = map (write_op (dsi (ctx sc))) (take K tbl)
      \<and> fst rc = snd (dcs_writes (emitted sc (snd rc)) ! (K - 1))
      \<and> map fst (emitted sc (snd rc))
          = [Regulator_enable (iovcc (ctx sc)), Usleep_range 1000 5000,
             Regulator_enable (vci (ctx sc)),
             Gpiod_set_value_cansleep (reset_gpio (ctx sc)) 1, Usleep_range 5000 10000,
             Gpiod_set_value_cansleep (reset_gpio (ctx sc)) 0, Usleep_range 1000 10000,
             Gpiod_set_value_cansleep (reset_gpio (ctx sc)) 1, Usleep_range 10000 20000]
            @ map (write_op (dsi (ctx sc))) (take K tbl)
            @ [Gpiod_set_value_cansleep (reset_gpio (ctx sc)) 0, Usleep_range 10000 20000,
               Regulator_disable (vci (ctx sc)), Usleep_range 5000 20000,
               Regulator_disable (iovcc (ctx sc))]
      \<and> gpio_level (reset_gpio (ctx sc)) (trace (snd rc)) = Some 0)
   \<and> (K \<le> length (dcs_writes (emitted sw (snd rw)))
      \<and> snd (dcs_writes (emitted sw (snd rw)) ! (K - 1)) < 0 \<longrightarrow>
        length (succeeded_writes (emitted sw (snd rw))) = K - 1
      \<and> length (failed_writes (emitted sw (snd rw))) = 1
      \<and> map fst (dcs_writes (emitted sw (snd rw))) = map (write_op (dsi (ctx sw))) (take K tbl)
      \<and> fst rw = snd (dcs_writes (emitted sw (snd rw)) ! (K - 1))
      \<and> map fst (emitted sw (snd rw))
          = [Regulator_enable (iovcc (ctx sw)), Regulator_enable (vci (ctx sw)),
             Gpiod_set_value_cansleep (reset_gpio (ctx sw)) 1, Usleep_range 10000 20000,
             Gpiod_set_value_cansleep (reset_gpio (ctx sw)) 0, Usleep_range 10000 20000,
             Gpiod_set_value_cansleep (reset_gpio (ctx sw)) 1, Msleep 120]
            @ map (write_op (dsi (ctx sw))) (take K tbl)
            @ [Gpiod_set_value_cansleep (reset_gpio (ctx sw)) 0,
               Regulator_disable (vci (ctx sw)), Regulator_disable (iovcc (ctx sw))]
      \<and> gpio_level (reset_gpio (ctx sw)) (trace (snd rw)) = Some 0
      \<and> \<not> prepared (ctx (snd rw)))"
proof (intro conjI impI)
  assume h: "K \<le> length (dcs_writes (emitted sc (snd rc)))
      \<and> snd (dcs_writes (emitted sc (snd rc)) ! (K - 1)) < 0"
  from clockwork_prepare_rollback[of rc tbl env sc K] h assms(3)
  show "length (succeeded_writes (emitted sc (snd rc))) = K - 1"
    and "length (failed_writes (emitted sc (snd rc))) = 1"
    and "map fst (dcs_writes (emitted sc (snd rc))) = map (write_op (dsi (ctx sc))) (take K tbl)"
    and "fst rc = snd (dcs_writes (emitted sc (snd rc)) ! (K - 1))"
    and "map fst (emitted sc (snd rc))
          = [Regulator_enable (iovcc (ctx sc)), Usleep_range 1000 5000,
             Regulator_enable (vci (ctx sc)),
             Gpiod_set_value_cansleep (reset_gpio (ctx sc)) 1, Usleep_range 5000 10000,
             Gpiod_set_value_cansleep (reset_gpio (ctx sc)) 0, Usleep_range 1000 10000,
             Gpiod_set_value_cansleep (reset_gpio (ctx sc)) 1, Usleep_range 10000 20000]
            @ map (write_op (dsi (ctx sc))) (take K tbl)
            @ [Gpiod_set_value_cansleep (reset_gpio (ctx sc)) 0, Usleep_range 10000 20000,
               Regulator_disable (vci (ctx sc)), Usleep_range 5000 20000,
               Regulator_disable (iovcc (ctx sc))]"
    and "gpio_level (reset_gpio (ctx sc)) (trace (snd rc)) = Some 0"
    by (simp_all add: rc_def clockwork_rollback_def clockwork_power_on_def)
next
  assume h: "K \<le> length (dcs_writes (emitted sw (snd rw)))
      \<and> snd (dcs_writes (emitted sw (snd rw)) ! (K - 1)) < 0"
  from cw_prepare_rollback[of rw tbl env' sw K] h assms(3)
  show "length (succeeded_writes (emitted sw (snd rw))) = K - 1"
    and "length (failed_writes (emitted sw (snd rw))) = 1"
    and "map fst (dcs_writes (emitted sw (snd rw))) = map (write_op (dsi (ctx sw))) (take K tbl)"
    and "fst rw = snd (dcs_writes (emitted sw (snd rw)) ! (K - 1))"
    and "map fst (emitted sw (snd rw))
          = [Regulator_enable (iovcc (ctx sw)), Regulator_enable (vci (ctx sw)),
             Gpiod_set_value_cansleep (reset_gpio (ctx sw)) 1, Usleep_range 10000 20000,
             Gpiod_set_value_cansleep (reset_gpio (ctx sw)) 0, Usleep_range 10000 20000,
             Gpiod_set_value_cansleep (reset_gpio (ctx sw)) 1, Msleep 120]
            @ map (write_op (dsi (ctx sw))) (take K tbl)
            @ [Gpiod_set_value_cansleep (reset_gpio (ctx sw)) 0,
               Regulator_disable (vci (ctx sw)), Regulator_disable (iovcc (ctx sw))]"
    and "gpio_level (reset_gpio (ctx sw)) (trace (snd rw)) = Some 0"
    and "\<not> prepared (ctx (snd rw))"
    by (simp_all add: rw_def cw_rollback_def cw_power_on_def)
qed

theorem prepare_rollback_witness:
  "(1::nat) \<le> 2 \<and> (2::nat) \<le> length clockwork_cwu50_panel_init_cmds
   \<and> 2 \<le> length (dcs_writes (emitted clockwork_boot (snd (clockwork_cwu50_prepare
          clockwork_cwu50_panel_init_cmds (env_fail_at 10 (- 5)) clockwork_boot))))
   \<and> snd (dcs_writes (emitted clockwork_boot (snd (clockwork_cwu50_prepare
          clockwork_cwu50_panel_init_cmds (env_fail_at 10 (- 5)) clockwork_boot))) ! (2 - 1)) < 0
   \<and> length (succeeded_writes (emitted clockwork_boot (snd (clockwork_cwu50_prepare
          clockwork_cwu50_panel_init_cmds (env_fail_at 10 (- 5)) clockwork_boot)))) = 2 - 1
   \<and> length (failed_writes (emitted clockwork_boot (snd (clockwork_cwu50_prepare
          clockwork_cwu50_panel_init_cmds (env_fail_at 10 (- 5)) clockwork_boot)))) = 1
   \<and> gpio_level (reset_gpio (ctx clockwork_boot)) (trace (snd (clockwork_cwu50_prepare
          clockwork_cwu50_panel_init_cmds (env_fail_at 10 (- 5)) clockwork_boot))) = Some 0
   \<and> fst (clockwork_cwu50_prepare
          clockwork_cwu50_panel_init_cmds (env_fail_at 10 (- 5)) clockwork_boot) = - 5
   \<and> (2::nat) \<le> length cw_cwu50_panel_init_cmds
   \<and> 2 \<le> length (dcs_writes (emitted cw_boot (snd (cw_cwu50_prepare
          cw_cwu50_panel_init_cmds (env_fail_at 9 (- 5)) cw_boot))))
   \<and> snd (dcs_writes (emitted cw_boot (snd (cw_cwu50_prepare
          cw_cwu50_panel_init_cmds (env_fail_at 9 (- 5)) cw_boot))) ! (2 - 1)) < 0
   \<and> length (succeeded_writes (emitted cw_boot (snd (cw_cwu50_prepare
          cw_cwu50_panel_init_cmds (env_fail_at 9 (- 5)) cw_boot)))) = 2 - 1
   \<and> length (failed_writes (emitted cw_boot (snd (cw_cwu50_prepare
          cw_cwu50_panel_init_cmds (env_fail_at 9 (- 5)) cw_boot)))) = 1
   \<and> gpio_level (reset_gpio (ctx cw_boot)) (trace (snd (cw_cwu50_prepare
          cw_cwu50_panel_init_cmds (env_fail_at 9 (- 5)) cw_boot))) = Some 0
   \<and> \<not> prepared (ctx (snd (cw_cwu50_prepare
          cw_cwu50_panel_init_cmds (env_fail_at 9 (- 5)) cw_boot)))
   \<and> fst (cw_cwu50_prepare cw_cwu50_panel_init_cmds (env_fail_at 9 (- 5)) cw_boot) = - 5"
proof -
  have k: "(1::nat) \<le> 2" by simp
  have n1: "(2::nat) \<le> length clockwork_cwu50_panel_init_cmds"
    by (simp add: clockwork_cwu50_panel_init_cmds_def)
  have n2: "(2::nat) \<le> length cw_cwu50_panel_init_cmds"
    by (simp add: cw_cwu50_panel_init_cmds_def)
  have hc: "2 \<le> length (dcs_writes (emitted clockwork_boot (snd (clockwork_cwu50_prepare
          clockwork_cwu50_panel_init_cmds (env_fail_at 10 (- 5)) clockwork_boot))))
      \<and> snd (dcs_writes (emitted clockwork_boot (snd (clockwork_cwu50_prepare
          clockwork_cwu50_panel_init_cmds (env_fail_at 10 (- 5)) clockwork_boot))) ! (2 - 1)) < 0"
    by (simp add: clockwork_second_write_fails emitted_def dcs_writes_def trace_boot)
  have hw: "2 \<le> length (dcs_writes (emitted cw_boot (snd (cw_cwu50_prepare
          cw_cwu50_panel_init_cmds (env_fail_at 9 (- 5)) cw_boot))))
      \<and> snd (dcs_writes (emitted cw_boot (snd (cw_cwu50_prepare
          cw_cwu50_panel_init_cmds (env_fail_at 9 (- 5)) cw_boot))) ! (2 - 1)) < 0"
    by (simp add: cw_second_write_fails emitted_def dcs_writes_def trace_boot)
  have rc: "fst (clockwork_cwu50_prepare
          clockwork_cwu50_panel_init_cmds (env_fail_at 10 (- 5)) clockwork_boot) = - 5"
    by (simp add: clockwork_second_write_fails)
  have rw: "fst (cw_cwu50_prepare cw_cwu50_panel_init_cmds (env_fail_at 9 (- 5)) cw_boot) = - 5"
    by (simp add: cw_second_write_fails)
  note c = prepare_rollback [where K = 2 and tbl = clockwork_cwu50_panel_init_cmds
      and env = "env_fail_at 10 (- 5)" and sc = clockwork_boot, OF k n1,
      THEN conjunct1, rule_format, OF hc]
  note w = prepare_rollback [where K = 2 and tbl = cw_cwu50_panel_init_cmds
      and env' = "env_fail_at 9 (- 5)" and sw = cw_boot, OF k n2,
      THEN conjunct2, rule_format, OF hw]
  from k n1 n2 hc hw rc rw c w show ?thesis by blast
qed


subsection \<open>A second prepare\<close>

text \<open>
  C3, as amended. In panel-cw-cwu50.c prepare is idempotent: after a prepare call that
  returned 0 the \<open>prepared\<close> flag is set, and a further prepare call, directly or
  after enable and disable calls (with no unprepare in between), returns 0 and leaves
  the whole state as it was: no regulator, reset-line or transport operation, whatever
  the environment would answer. panel-clockwork-cwu50.c keeps no such flag: every
  prepare call performs hardware I/O, beginning with \<^verbatim>\<open>regulator_enable\<close> on
  IOVCC.
\<close>

theorem prepare_idempotence:
  fixes sw :: "cw_cwu50_panel world" and sc :: "clockwork_cwu50_panel world"
  shows
  "(fst (cw_cwu50_prepare tbl env sw) = 0 \<longrightarrow>
        prepared (ctx (snd (cw_cwu50_prepare tbl env sw)))
      \<and> cw_cwu50_prepare tbl env2 (snd (cw_cwu50_prepare tbl env sw))
          = (0, snd (cw_cwu50_prepare tbl env sw))
      \<and> cw_cwu50_prepare tbl env2
            (snd (cw_cwu50_disable env4 (snd (cw_cwu50_enable env3
               (snd (cw_cwu50_prepare tbl env sw))))))
          = (0, snd (cw_cwu50_disable env4 (snd (cw_cwu50_enable env3
               (snd (cw_cwu50_prepare tbl env sw)))))))
   \<and> emitted sc (snd (clockwork_cwu50_prepare tbl env5 sc)) \<noteq> []
   \<and> fst (hd (emitted sc (snd (clockwork_cwu50_prepare tbl env5 sc))))
        = Regulator_enable (iovcc (ctx sc))"
proof (intro conjI impI)
  assume ok: "fst (cw_cwu50_prepare tbl env sw) = 0"
  then show p: "prepared (ctx (snd (cw_cwu50_prepare tbl env sw)))"
    by (rule cw_prepare_sets_flag)
  then show "cw_cwu50_prepare tbl env2 (snd (cw_cwu50_prepare tbl env sw))
          = (0, snd (cw_cwu50_prepare tbl env sw))"
    by (rule cw_prepare_guard)
  from p show "cw_cwu50_prepare tbl env2
            (snd (cw_cwu50_disable env4 (snd (cw_cwu50_enable env3
               (snd (cw_cwu50_prepare tbl env sw))))))
          = (0, snd (cw_cwu50_disable env4 (snd (cw_cwu50_enable env3
               (snd (cw_cwu50_prepare tbl env sw))))))"
    by (intro cw_prepare_guard) (simp add: enable_disable_ctx)
next
  show "emitted sc (snd (clockwork_cwu50_prepare tbl env5 sc)) \<noteq> []"
    and "fst (hd (emitted sc (snd (clockwork_cwu50_prepare tbl env5 sc))))
        = Regulator_enable (iovcc (ctx sc))"
    using clockwork_prepare_starts[of sc tbl env5] by simp_all
qed

theorem prepare_idempotence_witness:
  "fst (cw_cwu50_prepare cw_cwu50_panel_init_cmds env_ok cw_boot) = 0
   \<and> cw_cwu50_prepare cw_cwu50_panel_init_cmds (env_fail_at 0 (- 5))
        (snd (cw_cwu50_prepare cw_cwu50_panel_init_cmds env_ok cw_boot))
      = (0, snd (cw_cwu50_prepare cw_cwu50_panel_init_cmds env_ok cw_boot))
   \<and> emitted clockwork_boot
        (snd (clockwork_cwu50_prepare clockwork_cwu50_panel_init_cmds env_ok clockwork_boot)) \<noteq> []"
proof -
  have a: "fst (cw_cwu50_prepare cw_cwu50_panel_init_cmds env_ok cw_boot) = 0"
    by (simp add: cw_prepare_env_ok ctx_boot cw_handle_def)
  note t = prepare_idempotence [where tbl = cw_cwu50_panel_init_cmds and env = env_ok
      and sw = cw_boot and ?env2.0 = "env_fail_at 0 (- 5)", THEN conjunct1, rule_format, OF a]
  note u = prepare_idempotence [where tbl = clockwork_cwu50_panel_init_cmds and ?env5.0 = env_ok
      and sc = clockwork_boot, THEN conjunct2, THEN conjunct1]
  from a t u show ?thesis by blast
qed

theorem prepare_idempotence_counterexample:
  "fst (clockwork_cwu50_prepare clockwork_cwu50_panel_init_cmds env_ok clockwork_boot) = 0
   \<and> fst (clockwork_cwu50_prepare clockwork_cwu50_panel_init_cmds env_ok
            clockwork_prepared_once) = 0
   \<and> emitted clockwork_prepared_once
        (snd (clockwork_cwu50_prepare clockwork_cwu50_panel_init_cmds env_ok
                clockwork_prepared_once)) \<noteq> []
   \<and> length (emitted clockwork_prepared_once
        (snd (clockwork_cwu50_prepare clockwork_cwu50_panel_init_cmds env_ok
                clockwork_prepared_once)))
      = 9 + length clockwork_cwu50_panel_init_cmds"
  by (simp add: clockwork_prepare_env_ok emitted_def clockwork_power_on_def)


subsection \<open>Unprepare\<close>

text \<open>
  C4. Unprepare is total: from every starting state and in every environment it returns
  0, also when one or both \<^verbatim>\<open>regulator_disable\<close> calls fail. In
  panel-cw-cwu50.c the handle ends with \<open>prepared\<close> clear (no other field changes);
  from a prepared handle the operations are always display off, delay, enter sleep
  mode, delay, reset to 0, delay, disable VCI, delay, disable IOVCC, so the
  IOVCC-disable call is made whatever the VCI-disable call returned; from an unprepared
  handle nothing is done. In panel-clockwork-cwu50.c, whose handle has no flag, the
  operations are always reset to 0, delay, disable VCI, delay, disable IOVCC, and
  the handle is unchanged.
\<close>

theorem unprepare_total:
  fixes sc :: "clockwork_cwu50_panel world" and sw :: "cw_cwu50_panel world"
  shows
  "fst (clockwork_cwu50_unprepare env sc) = 0
   \<and> ctx (snd (clockwork_cwu50_unprepare env sc)) = ctx sc
   \<and> trace (snd (clockwork_cwu50_unprepare env sc))
        = trace sc @ emitted sc (snd (clockwork_cwu50_unprepare env sc))
   \<and> map fst (emitted sc (snd (clockwork_cwu50_unprepare env sc)))
        = [Gpiod_set_value_cansleep (reset_gpio (ctx sc)) 0, Usleep_range 1000 10000,
           Regulator_disable (vci (ctx sc)), Usleep_range 1000 20000,
           Regulator_disable (iovcc (ctx sc))]
   \<and> fst (cw_cwu50_unprepare env' sw) = 0
   \<and> ctx (snd (cw_cwu50_unprepare env' sw)) = (ctx sw)\<lparr>prepared := False\<rparr>
   \<and> \<not> prepared (ctx (snd (cw_cwu50_unprepare env' sw)))
   \<and> trace (snd (cw_cwu50_unprepare env' sw))
        = trace sw @ emitted sw (snd (cw_cwu50_unprepare env' sw))
   \<and> (prepared (ctx sw) \<longrightarrow>
        map fst (emitted sw (snd (cw_cwu50_unprepare env' sw)))
        = [Dcs_set_display_off (dsi (ctx sw)), Msleep 20,
           Dcs_enter_sleep_mode (dsi (ctx sw)), Msleep 120,
           Gpiod_set_value_cansleep (reset_gpio (ctx sw)) 0, Msleep 20,
           Regulator_disable (vci (ctx sw)), Usleep_range 1000 20000,
           Regulator_disable (iovcc (ctx sw))])
   \<and> (\<not> prepared (ctx sw) \<longrightarrow> cw_cwu50_unprepare env' sw = (0, sw))"
proof (intro conjI impI)
  show "fst (clockwork_cwu50_unprepare env sc) = 0"
    by (simp add: clockwork_cwu50_unprepare_def call_defs world_simps Let_def split_beta)
  show "ctx (snd (clockwork_cwu50_unprepare env sc)) = ctx sc"
    by (simp add: clockwork_cwu50_unprepare_def call_defs world_simps Let_def split_beta)
  show "trace (snd (clockwork_cwu50_unprepare env sc))
        = trace sc @ emitted sc (snd (clockwork_cwu50_unprepare env sc))"
    by (simp add: clockwork_cwu50_unprepare_def call_defs world_simps Let_def split_beta emitted_def)
  show "map fst (emitted sc (snd (clockwork_cwu50_unprepare env sc)))
        = [Gpiod_set_value_cansleep (reset_gpio (ctx sc)) 0, Usleep_range 1000 10000,
           Regulator_disable (vci (ctx sc)), Usleep_range 1000 20000,
           Regulator_disable (iovcc (ctx sc))]"
    by (simp add: clockwork_cwu50_unprepare_def call_defs world_simps Let_def split_beta emitted_def)
  show "fst (cw_cwu50_unprepare env' sw) = 0"
    by (simp add: cw_cwu50_unprepare_def call_defs world_simps Let_def split_beta)
  show c: "ctx (snd (cw_cwu50_unprepare env' sw)) = (ctx sw)\<lparr>prepared := False\<rparr>"
    by (simp add: cw_cwu50_unprepare_def call_defs world_simps Let_def split_beta)
  show "\<not> prepared (ctx (snd (cw_cwu50_unprepare env' sw)))"
    by (simp add: c)
  show "trace (snd (cw_cwu50_unprepare env' sw))
        = trace sw @ emitted sw (snd (cw_cwu50_unprepare env' sw))"
    by (simp add: cw_cwu50_unprepare_def call_defs world_simps Let_def split_beta emitted_def)
next
  assume "prepared (ctx sw)"
  then show "map fst (emitted sw (snd (cw_cwu50_unprepare env' sw)))
        = [Dcs_set_display_off (dsi (ctx sw)), Msleep 20,
           Dcs_enter_sleep_mode (dsi (ctx sw)), Msleep 120,
           Gpiod_set_value_cansleep (reset_gpio (ctx sw)) 0, Msleep 20,
           Regulator_disable (vci (ctx sw)), Usleep_range 1000 20000,
           Regulator_disable (iovcc (ctx sw))]"
    by (simp add: cw_cwu50_unprepare_def call_defs world_simps Let_def split_beta emitted_def)
next
  assume "\<not> prepared (ctx sw)"
  then show "cw_cwu50_unprepare env' sw = (0, sw)"
    by (simp add: cw_cwu50_unprepare_def)
qed

theorem unprepare_total_witness:
  "prepared (ctx cw_prepared)
   \<and> fst (cw_cwu50_unprepare env_disable_fails cw_prepared) = 0
   \<and> \<not> prepared (ctx (snd (cw_cwu50_unprepare env_disable_fails cw_prepared)))
   \<and> map fst (emitted cw_prepared (snd (cw_cwu50_unprepare env_disable_fails cw_prepared)))
        = [Dcs_set_display_off (dsi (ctx cw_prepared)), Msleep 20,
           Dcs_enter_sleep_mode (dsi (ctx cw_prepared)), Msleep 120,
           Gpiod_set_value_cansleep (reset_gpio (ctx cw_prepared)) 0, Msleep 20,
           Regulator_disable (vci (ctx cw_prepared)), Usleep_range 1000 20000,
           Regulator_disable (iovcc (ctx cw_prepared))]
   \<and> emitted cw_prepared (snd (cw_cwu50_unprepare env_disable_fails cw_prepared)) ! 6
        = (Regulator_disable (Regulator 0), - 5)
   \<and> emitted cw_prepared (snd (cw_cwu50_unprepare env_disable_fails cw_prepared)) ! 8
        = (Regulator_disable (Regulator 1), - 5)
   \<and> \<not> prepared (ctx cw_boot)
   \<and> cw_cwu50_unprepare env_disable_fails cw_boot = (0, cw_boot)
   \<and> fst (clockwork_cwu50_unprepare env_disable_fails clockwork_boot) = 0
   \<and> emitted clockwork_boot (snd (clockwork_cwu50_unprepare env_disable_fails clockwork_boot))
        = [(Gpiod_set_value_cansleep (Gpio 0) 0, 0), (Usleep_range 1000 10000, 0),
           (Regulator_disable (Regulator 0), - 5), (Usleep_range 1000 20000, 0),
           (Regulator_disable (Regulator 1), - 5)]"
proof -
  have p: "prepared (ctx cw_prepared)" by (simp add: ctx_boot)
  have np: "\<not> prepared (ctx cw_boot)" by (simp add: ctx_boot cw_handle_def)
  have e6: "emitted cw_prepared (snd (cw_cwu50_unprepare env_disable_fails cw_prepared)) ! 6
        = (Regulator_disable (Regulator 0), - 5)"
    and e8: "emitted cw_prepared (snd (cw_cwu50_unprepare env_disable_fails cw_prepared)) ! 8
        = (Regulator_disable (Regulator 1), - 5)"
    by (simp_all add: cw_unprepare_disable_fails emitted_def trace_boot)
  have ec: "emitted clockwork_boot (snd (clockwork_cwu50_unprepare env_disable_fails clockwork_boot))
        = [(Gpiod_set_value_cansleep (Gpio 0) 0, 0), (Usleep_range 1000 10000, 0),
           (Regulator_disable (Regulator 0), - 5), (Usleep_range 1000 20000, 0),
           (Regulator_disable (Regulator 1), - 5)]"
    by (simp add: clockwork_unprepare_disable_fails emitted_def trace_boot)
  note t = unprepare_total [where env = env_disable_fails and env' = env_disable_fails
      and sc = clockwork_boot and sw = cw_prepared]
  note u = unprepare_total [where env = env_disable_fails and env' = env_disable_fails
      and sc = clockwork_boot and sw = cw_boot]
  from p np e6 e8 ec t u show ?thesis by blast
qed


subsection \<open>The command transmitter\<close>

text \<open>
  C5, as amended. \<^verbatim>\<open>cwu50_init_sequence\<close> sends the table entries in table order:
  the transport writes of a call are always the first entries of the table, in order.
  When the K-th write fails, the K - 1 writes before it succeeded, the failed write is
  the last operation of the call (no remaining entry is attempted), the function
  returns the error code of that write, and its one logging call is
  \<^verbatim>\<open>dev_err_ratelimited\<close> with the register byte of the failing entry and the
  error code (a message the rate limiter may drop); the index of the failing entry is
  no part of what the caller receives. When no write fails, all N entries are sent.
  In panel-clockwork-cwu50.c the writes are the only operations, and when none fails 0
  is returned and nothing is logged. In panel-cw-cwu50.c the function first tests the
  \<open>prepared\<close> flag: with the flag set it returns 0 at once and does nothing; with
  the flag clear all of the above holds of its transport writes, and when no write
  fails the N writes are followed by exactly one more operation, the exit-sleep-mode
  command, whose failure is logged and returned and whose success gives 0.
\<close>

theorem init_sequence_first_failure:
  fixes sc :: "clockwork_cwu50_panel world" and sw :: "cw_cwu50_panel world"
    and tbl :: "cwu50_init_cmd list" and env env' :: env and K :: nat
  defines "rc \<equiv> clockwork_cwu50_init_sequence tbl env sc"
    and "rw \<equiv> cw_cwu50_init_sequence tbl env' sw"
  shows
  "map fst (emitted sc (snd rc))
      = map (write_op (dsi (ctx sc))) (take (length (emitted sc (snd rc))) tbl)
   \<and> length (emitted sc (snd rc)) \<le> length tbl
   \<and> (1 \<le> K \<and> K \<le> length (emitted sc (snd rc)) \<and> snd (emitted sc (snd rc) ! (K - 1)) < 0 \<longrightarrow>
        length (emitted sc (snd rc)) = K
      \<and> list_all (\<lambda>e. 0 \<le> snd e) (take (K - 1) (emitted sc (snd rc)))
      \<and> fst rc = snd (emitted sc (snd rc) ! (K - 1))
      \<and> klog (snd rc) = klog sc @
           [Dev_err_ratelimited ''sending command %#02x failed: %d''
              [uint (fst (tbl ! (K - 1))), fst rc]])
   \<and> (list_all (\<lambda>e. 0 \<le> snd e) (emitted sc (snd rc)) \<longrightarrow>
        fst rc = 0 \<and> length (emitted sc (snd rc)) = length tbl \<and> klog (snd rc) = klog sc)
   \<and> (\<not> prepared (ctx sw) \<longrightarrow>
        map fst (dcs_writes (emitted sw (snd rw)))
          = map (write_op (dsi (ctx sw))) (take (length (dcs_writes (emitted sw (snd rw)))) tbl)
      \<and> length (dcs_writes (emitted sw (snd rw))) \<le> length tbl)
   \<and> (\<not> prepared (ctx sw) \<and> 1 \<le> K \<and> K \<le> length (dcs_writes (emitted sw (snd rw)))
        \<and> snd (dcs_writes (emitted sw (snd rw)) ! (K - 1)) < 0 \<longrightarrow>
        emitted sw (snd rw) = dcs_writes (emitted sw (snd rw))
      \<and> length (emitted sw (snd rw)) = K
      \<and> list_all (\<lambda>e. 0 \<le> snd e) (take (K - 1) (emitted sw (snd rw)))
      \<and> fst rw = snd (emitted sw (snd rw) ! (K - 1))
      \<and> klog (snd rw) = klog sw @
           [Dev_err_ratelimited ''sending command %#02x failed: %d''
              [uint (fst (tbl ! (K - 1))), fst rw]])
   \<and> (\<not> prepared (ctx sw) \<and> list_all (\<lambda>e. 0 \<le> snd e) (dcs_writes (emitted sw (snd rw))) \<longrightarrow>
        map fst (emitted sw (snd rw))
          = map (write_op (dsi (ctx sw))) tbl @ [Dcs_exit_sleep_mode (dsi (ctx sw))]
      \<and> length (dcs_writes (emitted sw (snd rw))) = length tbl)
   \<and> (\<not> prepared (ctx sw) \<and> list_all (\<lambda>e. 0 \<le> snd e) (emitted sw (snd rw)) \<longrightarrow>
        fst rw = 0 \<and> klog (snd rw) = klog sw)
   \<and> (\<not> prepared (ctx sw) \<and> list_all (\<lambda>e. 0 \<le> snd e) (dcs_writes (emitted sw (snd rw)))
        \<and> snd (last (emitted sw (snd rw))) < 0 \<longrightarrow>
        fst rw = snd (last (emitted sw (snd rw)))
      \<and> klog (snd rw) = klog sw @
           [Dev_err ''failed to exit sleep mode at init: %d'' [fst rw]])
   \<and> (prepared (ctx sw) \<longrightarrow> rw = (0, sw))"
proof -
  have rc_eq: "rc = clockwork_cwu50_init_sequence tbl env sc"
    and rw_eq: "rw = cw_cwu50_init_sequence tbl env' sw"
    by (simp_all add: rc_def rw_def)
  have c: "map fst (emitted sc (snd rc))
      = map (write_op (dsi (ctx sc))) (take (length (emitted sc (snd rc))) tbl)
   \<and> length (emitted sc (snd rc)) \<le> length tbl
   \<and> (1 \<le> K \<and> K \<le> length (emitted sc (snd rc)) \<and> snd (emitted sc (snd rc) ! (K - 1)) < 0 \<longrightarrow>
        length (emitted sc (snd rc)) = K
      \<and> list_all (\<lambda>e. 0 \<le> snd e) (take (K - 1) (emitted sc (snd rc)))
      \<and> fst rc = snd (emitted sc (snd rc) ! (K - 1))
      \<and> klog (snd rc) = klog sc @
           [Dev_err_ratelimited ''sending command %#02x failed: %d''
              [uint (fst (tbl ! (K - 1))), fst rc]])
   \<and> (list_all (\<lambda>e. 0 \<le> snd e) (emitted sc (snd rc)) \<longrightarrow>
        fst rc = 0 \<and> length (emitted sc (snd rc)) = length tbl \<and> klog (snd rc) = klog sc)"
    using rc_eq
  proof (cases rule: clockwork_init_sequence_cases)
    case completed
    from completed(5) have len: "length (emitted sc (snd rc)) = length tbl"
      by (drule_tac arg_cong[where f = length]) simp
    from completed len writes_ok_no_failure[of "emitted sc (snd rc)" K]
    show ?thesis by auto
  next
    case failed
    note sh = writes_failed_shape[OF failed(4,5,6,7,8,1)]
    have "length (emitted sc (snd rc)) = K
      \<and> list_all (\<lambda>e. 0 \<le> snd e) (take (K - 1) (emitted sc (snd rc)))
      \<and> fst rc = snd (emitted sc (snd rc) ! (K - 1))
      \<and> klog (snd rc) = klog sc @
           [Dev_err_ratelimited ''sending command %#02x failed: %d''
              [uint (fst (tbl ! (K - 1))), fst rc]]"
      if "1 \<le> K" "K \<le> length (emitted sc (snd rc))" "snd (emitted sc (snd rc) ! (K - 1)) < 0"
      using sh(1,5)[OF that] failed(7,9)
      by (simp add: butlast_conv_take list_all_iff)
    with failed all_ok_last_failed[of "emitted sc (snd rc)"] show ?thesis by auto
  qed
  have w: "map fst (dcs_writes (emitted sw (snd rw)))
          = map (write_op (dsi (ctx sw))) (take (length (dcs_writes (emitted sw (snd rw)))) tbl)
      \<and> length (dcs_writes (emitted sw (snd rw))) \<le> length tbl
      \<and> (1 \<le> K \<and> K \<le> length (dcs_writes (emitted sw (snd rw)))
        \<and> snd (dcs_writes (emitted sw (snd rw)) ! (K - 1)) < 0 \<longrightarrow>
        emitted sw (snd rw) = dcs_writes (emitted sw (snd rw))
      \<and> length (emitted sw (snd rw)) = K
      \<and> list_all (\<lambda>e. 0 \<le> snd e) (take (K - 1) (emitted sw (snd rw)))
      \<and> fst rw = snd (emitted sw (snd rw) ! (K - 1))
      \<and> klog (snd rw) = klog sw @
           [Dev_err_ratelimited ''sending command %#02x failed: %d''
              [uint (fst (tbl ! (K - 1))), fst rw]])"
    if np: "\<not> prepared (ctx sw)"
    using rw_eq np
  proof (cases rule: cw_init_sequence_cases)
    case (completed r)
    from completed(7) have len: "length (dcs_writes (emitted sw (snd rw))) = length tbl"
      by (drule_tac arg_cong[where f = length]) simp
    from completed(7,8) len writes_ok_no_failure[of "dcs_writes (emitted sw (snd rw))" K]
    show ?thesis by auto
  next
    case sleep_out_failed
    from sleep_out_failed(5) have len: "length (dcs_writes (emitted sw (snd rw))) = length tbl"
      by (drule_tac arg_cong[where f = length]) simp
    from sleep_out_failed(5,6) len writes_ok_no_failure[of "dcs_writes (emitted sw (snd rw))" K]
    show ?thesis by auto
  next
    case failed
    note sh = writes_failed_shape[OF failed(5,6,7,8,9,1)]
    have "length (emitted sw (snd rw)) = K
      \<and> list_all (\<lambda>e. 0 \<le> snd e) (take (K - 1) (emitted sw (snd rw)))
      \<and> fst rw = snd (emitted sw (snd rw) ! (K - 1))
      \<and> klog (snd rw) = klog sw @
           [Dev_err_ratelimited ''sending command %#02x failed: %d''
              [uint (fst (tbl ! (K - 1))), fst rw]]"
      if "1 \<le> K" "K \<le> length (emitted sw (snd rw))" "snd (emitted sw (snd rw) ! (K - 1)) < 0"
      using sh(1,5)[OF that] failed(8,10)
      by (simp add: butlast_conv_take list_all_iff)
    with failed(4,6,7) show ?thesis by metis
  qed
  have n: "(list_all (\<lambda>e. 0 \<le> snd e) (dcs_writes (emitted sw (snd rw))) \<longrightarrow>
        map fst (emitted sw (snd rw))
          = map (write_op (dsi (ctx sw))) tbl @ [Dcs_exit_sleep_mode (dsi (ctx sw))]
      \<and> length (dcs_writes (emitted sw (snd rw))) = length tbl)
   \<and> (list_all (\<lambda>e. 0 \<le> snd e) (emitted sw (snd rw)) \<longrightarrow>
        fst rw = 0 \<and> klog (snd rw) = klog sw)
   \<and> (list_all (\<lambda>e. 0 \<le> snd e) (dcs_writes (emitted sw (snd rw)))
        \<and> snd (last (emitted sw (snd rw))) < 0 \<longrightarrow>
        fst rw = snd (last (emitted sw (snd rw)))
      \<and> klog (snd rw) = klog sw @
           [Dev_err ''failed to exit sleep mode at init: %d'' [fst rw]])"
    if np: "\<not> prepared (ctx sw)"
  proof -
    define E where "E = emitted sw (snd rw)"
    define W where "W = dcs_writes E"
    from rw_eq np have "(list_all (\<lambda>e. 0 \<le> snd e) W \<longrightarrow>
          map fst E = map (write_op (dsi (ctx sw))) tbl @ [Dcs_exit_sleep_mode (dsi (ctx sw))]
        \<and> length W = length tbl)
      \<and> (list_all (\<lambda>e. 0 \<le> snd e) E \<longrightarrow> fst rw = 0 \<and> klog (snd rw) = klog sw)
      \<and> (list_all (\<lambda>e. 0 \<le> snd e) W \<and> snd (last E) < 0 \<longrightarrow>
          fst rw = snd (last E)
        \<and> klog (snd rw) = klog sw @
             [Dev_err ''failed to exit sleep mode at init: %d'' [fst rw]])"
    proof (cases rule: cw_init_sequence_cases)
      case (completed r)
      have e: "E = W @ [(Dcs_exit_sleep_mode (dsi (ctx sw)), r)]"
        using completed(6) by (simp add: E_def W_def)
      have m: "map fst W = map (write_op (dsi (ctx sw))) tbl"
        using completed(7) by (simp add: E_def W_def)
      from m have len: "length W = length tbl" by (metis length_map)
      from completed(1,2,5) m len show ?thesis by (simp add: e)
    next
      case sleep_out_failed
      have e: "E = W @ [(Dcs_exit_sleep_mode (dsi (ctx sw)), fst rw)]"
        using sleep_out_failed(4) by (simp add: E_def W_def)
      have m: "map fst W = map (write_op (dsi (ctx sw))) tbl"
        using sleep_out_failed(5) by (simp add: E_def W_def)
      from m have len: "length W = length tbl" by (metis length_map)
      from sleep_out_failed(1,7) m len show ?thesis by (simp add: e)
    next
      case failed
      have e: "W = E" using failed(4) by (simp add: E_def W_def)
      have "E \<noteq> []" "snd (last E) < 0"
        using failed(1,5,9) by (simp_all add: E_def)
      with all_ok_last_failed [of E] show ?thesis by (auto simp: e)
    qed
    then show ?thesis by (simp add: E_def W_def)
  qed
  have g: "prepared (ctx sw) \<longrightarrow> rw = (0, sw)"
    by (simp add: rw_def cw_cwu50_init_sequence_def)
  from c w n g show ?thesis by blast
qed

theorem init_sequence_first_failure_witness:
  "(1::nat) \<le> 9
   \<and> 9 \<le> length (emitted clockwork_boot (snd (clockwork_cwu50_init_sequence
         clockwork_cwu50_panel_init_cmds (env_fail_at 8 (- 5)) clockwork_boot)))
   \<and> snd (emitted clockwork_boot (snd (clockwork_cwu50_init_sequence
         clockwork_cwu50_panel_init_cmds (env_fail_at 8 (- 5)) clockwork_boot)) ! (9 - 1)) < 0
   \<and> length (emitted clockwork_boot (snd (clockwork_cwu50_init_sequence
         clockwork_cwu50_panel_init_cmds (env_fail_at 8 (- 5)) clockwork_boot))) = 9
   \<and> fst (clockwork_cwu50_init_sequence
         clockwork_cwu50_panel_init_cmds (env_fail_at 8 (- 5)) clockwork_boot) = - 5
   \<and> klog (snd (clockwork_cwu50_init_sequence
         clockwork_cwu50_panel_init_cmds (env_fail_at 8 (- 5)) clockwork_boot))
       = klog clockwork_boot @ [Dev_err_ratelimited ''sending command %#02x failed: %d''
           [uint (fst (clockwork_cwu50_panel_init_cmds ! (9 - 1))),
            fst (clockwork_cwu50_init_sequence
              clockwork_cwu50_panel_init_cmds (env_fail_at 8 (- 5)) clockwork_boot)]]
   \<and> list_all (\<lambda>e. 0 \<le> snd e) (emitted clockwork_boot (snd (clockwork_cwu50_init_sequence
         clockwork_cwu50_panel_init_cmds env_ok clockwork_boot)))
   \<and> fst (clockwork_cwu50_init_sequence clockwork_cwu50_panel_init_cmds env_ok clockwork_boot) = 0
   \<and> length (emitted clockwork_boot (snd (clockwork_cwu50_init_sequence
         clockwork_cwu50_panel_init_cmds env_ok clockwork_boot)))
       = length clockwork_cwu50_panel_init_cmds
   \<and> \<not> prepared (ctx cw_boot)
   \<and> 9 \<le> length (dcs_writes (emitted cw_boot (snd (cw_cwu50_init_sequence
         cw_cwu50_panel_init_cmds (env_fail_at 8 (- 5)) cw_boot))))
   \<and> snd (dcs_writes (emitted cw_boot (snd (cw_cwu50_init_sequence
         cw_cwu50_panel_init_cmds (env_fail_at 8 (- 5)) cw_boot))) ! (9 - 1)) < 0
   \<and> length (emitted cw_boot (snd (cw_cwu50_init_sequence
         cw_cwu50_panel_init_cmds (env_fail_at 8 (- 5)) cw_boot))) = 9
   \<and> fst (cw_cwu50_init_sequence cw_cwu50_panel_init_cmds (env_fail_at 8 (- 5)) cw_boot) = - 5
   \<and> list_all (\<lambda>e. 0 \<le> snd e) (dcs_writes (emitted cw_boot (snd (cw_cwu50_init_sequence
         cw_cwu50_panel_init_cmds env_ok cw_boot))))
   \<and> map fst (emitted cw_boot (snd (cw_cwu50_init_sequence
         cw_cwu50_panel_init_cmds env_ok cw_boot)))
       = map (write_op (dsi (ctx cw_boot))) cw_cwu50_panel_init_cmds
         @ [Dcs_exit_sleep_mode (dsi (ctx cw_boot))]
   \<and> length (dcs_writes (emitted cw_boot (snd (cw_cwu50_init_sequence
         cw_cwu50_panel_init_cmds env_ok cw_boot))))
       = length cw_cwu50_panel_init_cmds
   \<and> list_all (\<lambda>e. 0 \<le> snd e) (emitted cw_boot (snd (cw_cwu50_init_sequence
         cw_cwu50_panel_init_cmds env_ok cw_boot)))
   \<and> fst (cw_cwu50_init_sequence cw_cwu50_panel_init_cmds env_ok cw_boot) = 0
   \<and> list_all (\<lambda>e. 0 \<le> snd e) (dcs_writes (emitted cw_boot (snd (cw_cwu50_init_sequence
         cw_cwu50_panel_init_cmds (env_fail_at (length cw_cwu50_panel_init_cmds) (- 5)) cw_boot))))
   \<and> snd (last (emitted cw_boot (snd (cw_cwu50_init_sequence
         cw_cwu50_panel_init_cmds (env_fail_at (length cw_cwu50_panel_init_cmds) (- 5)) cw_boot))))
       < 0
   \<and> fst (cw_cwu50_init_sequence
         cw_cwu50_panel_init_cmds (env_fail_at (length cw_cwu50_panel_init_cmds) (- 5)) cw_boot)
       = snd (last (emitted cw_boot (snd (cw_cwu50_init_sequence
         cw_cwu50_panel_init_cmds (env_fail_at (length cw_cwu50_panel_init_cmds) (- 5)) cw_boot))))
   \<and> prepared (ctx cw_prepared)
   \<and> cw_cwu50_init_sequence cw_cwu50_panel_init_cmds env_ok cw_prepared = (0, cw_prepared)"
proof -
  have k: "(1::nat) \<le> 9" by simp
  have hc: "9 \<le> length (emitted clockwork_boot (snd (clockwork_cwu50_init_sequence
         clockwork_cwu50_panel_init_cmds (env_fail_at 8 (- 5)) clockwork_boot)))
     \<and> snd (emitted clockwork_boot (snd (clockwork_cwu50_init_sequence
         clockwork_cwu50_panel_init_cmds (env_fail_at 8 (- 5)) clockwork_boot)) ! (9 - 1)) < 0"
    by (simp add: clockwork_init_ninth_write_fails emitted_def trace_boot)
  have ok: "list_all (\<lambda>e. 0 \<le> snd e) (emitted clockwork_boot (snd (clockwork_cwu50_init_sequence
         clockwork_cwu50_panel_init_cmds env_ok clockwork_boot)))"
    by (simp add: clockwork_init_env_ok emitted_def list_all_iff)
  have np: "\<not> prepared (ctx cw_boot)" by (simp add: ctx_boot cw_handle_def)
  have hw: "9 \<le> length (dcs_writes (emitted cw_boot (snd (cw_cwu50_init_sequence
         cw_cwu50_panel_init_cmds (env_fail_at 8 (- 5)) cw_boot))))
     \<and> snd (dcs_writes (emitted cw_boot (snd (cw_cwu50_init_sequence
         cw_cwu50_panel_init_cmds (env_fail_at 8 (- 5)) cw_boot))) ! (9 - 1)) < 0"
    by (simp add: cw_init_ninth_write_fails emitted_def dcs_writes_def trace_boot)
  have rc: "fst (clockwork_cwu50_init_sequence
         clockwork_cwu50_panel_init_cmds (env_fail_at 8 (- 5)) clockwork_boot) = - 5"
    by (simp add: clockwork_init_ninth_write_fails)
  have rw: "fst (cw_cwu50_init_sequence cw_cwu50_panel_init_cmds (env_fail_at 8 (- 5)) cw_boot) = - 5"
    by (simp add: cw_init_ninth_write_fails)
  note t = init_sequence_first_failure [where K = 9 and tbl = clockwork_cwu50_panel_init_cmds
      and env = "env_fail_at 8 (- 5)" and sc = clockwork_boot]
  note c1 = t [THEN conjunct2, THEN conjunct2, THEN conjunct1, rule_format, OF conjI [OF k hc]]
  note c2 = init_sequence_first_failure [where tbl = clockwork_cwu50_panel_init_cmds
      and env = env_ok and sc = clockwork_boot,
      THEN conjunct2, THEN conjunct2, THEN conjunct2, THEN conjunct1, rule_format, OF ok]
  note c3 = init_sequence_first_failure [where K = 9 and tbl = cw_cwu50_panel_init_cmds
      and env' = "env_fail_at 8 (- 5)" and sw = cw_boot,
      THEN conjunct2, THEN conjunct2, THEN conjunct2, THEN conjunct2, THEN conjunct2,
      THEN conjunct1, rule_format, OF conjI [OF np conjI [OF k hw]]]
  have p: "prepared (ctx cw_prepared)" by (simp add: ctx_boot)
  note c4 = init_sequence_first_failure [where tbl = cw_cwu50_panel_init_cmds
      and env' = env_ok and sw = cw_prepared,
      THEN conjunct2, THEN conjunct2, THEN conjunct2, THEN conjunct2, THEN conjunct2,
      THEN conjunct2, THEN conjunct2, THEN conjunct2, THEN conjunct2, rule_format, OF p]
  have okw: "list_all (\<lambda>e. 0 \<le> snd e) (dcs_writes (emitted cw_boot (snd (cw_cwu50_init_sequence
         cw_cwu50_panel_init_cmds env_ok cw_boot))))"
    and oke: "list_all (\<lambda>e. 0 \<le> snd e) (emitted cw_boot (snd (cw_cwu50_init_sequence
         cw_cwu50_panel_init_cmds env_ok cw_boot)))"
    by (simp_all add: cw_init_env_ok [OF np] emitted_def trace_boot writes_then_one list_all_iff)
  have tr: "trace cw_boot = []" by (rule trace_boot)
  have neg: "(- 5 :: int) < 0" by simp
  have fw: "list_all (\<lambda>e. 0 \<le> snd e) (dcs_writes (emitted cw_boot (snd (cw_cwu50_init_sequence
         cw_cwu50_panel_init_cmds (env_fail_at (length cw_cwu50_panel_init_cmds) (- 5)) cw_boot))))
     \<and> snd (last (emitted cw_boot (snd (cw_cwu50_init_sequence
         cw_cwu50_panel_init_cmds (env_fail_at (length cw_cwu50_panel_init_cmds) (- 5)) cw_boot))))
       < 0"
    by (simp add: cw_init_sleep_out_fails [OF np tr neg] emitted_def trace_boot writes_then_one
        list_all_iff)
  note s7 = init_sequence_first_failure [where tbl = cw_cwu50_panel_init_cmds
      and env' = env_ok and sw = cw_boot,
      THEN conjunct2, THEN conjunct2, THEN conjunct2, THEN conjunct2, THEN conjunct2,
      THEN conjunct2, THEN conjunct1, rule_format, OF conjI [OF np okw]]
  note s8 = init_sequence_first_failure [where tbl = cw_cwu50_panel_init_cmds
      and env' = env_ok and sw = cw_boot,
      THEN conjunct2, THEN conjunct2, THEN conjunct2, THEN conjunct2, THEN conjunct2,
      THEN conjunct2, THEN conjunct2, THEN conjunct1, rule_format, OF conjI [OF np oke]]
  note s9 = init_sequence_first_failure [where tbl = cw_cwu50_panel_init_cmds
      and env' = "env_fail_at (length cw_cwu50_panel_init_cmds) (- 5)" and sw = cw_boot,
      THEN conjunct2, THEN conjunct2, THEN conjunct2, THEN conjunct2, THEN conjunct2,
      THEN conjunct2, THEN conjunct2, THEN conjunct2, THEN conjunct1, rule_format,
      OF conjI [OF np fw]]
  from k hc ok np hw rc rw c1 c2 c3 p c4 okw oke fw s7 s8 s9 show ?thesis by blast
qed

theorem init_sequence_index_counterexample:
  "fst (clockwork_cwu50_init_sequence clockwork_cwu50_panel_init_cmds (env_fail_at 0 (- 5))
          clockwork_boot)
     = fst (clockwork_cwu50_init_sequence clockwork_cwu50_panel_init_cmds (env_fail_at 8 (- 5))
          clockwork_boot)
   \<and> klog (snd (clockwork_cwu50_init_sequence clockwork_cwu50_panel_init_cmds
          (env_fail_at 0 (- 5)) clockwork_boot))
     = klog (snd (clockwork_cwu50_init_sequence clockwork_cwu50_panel_init_cmds
          (env_fail_at 8 (- 5)) clockwork_boot))
   \<and> length (emitted clockwork_boot (snd (clockwork_cwu50_init_sequence
          clockwork_cwu50_panel_init_cmds (env_fail_at 0 (- 5)) clockwork_boot))) = 1
   \<and> snd (last (emitted clockwork_boot (snd (clockwork_cwu50_init_sequence
          clockwork_cwu50_panel_init_cmds (env_fail_at 0 (- 5)) clockwork_boot)))) = - 5
   \<and> length (emitted clockwork_boot (snd (clockwork_cwu50_init_sequence
          clockwork_cwu50_panel_init_cmds (env_fail_at 8 (- 5)) clockwork_boot))) = 9
   \<and> snd (last (emitted clockwork_boot (snd (clockwork_cwu50_init_sequence
          clockwork_cwu50_panel_init_cmds (env_fail_at 8 (- 5)) clockwork_boot)))) = - 5"
  by (simp add: clockwork_init_first_write_fails clockwork_init_ninth_write_fails emitted_def
      trace_boot)


subsection \<open>Enable\<close>

text \<open>
  C6, as amended. In panel-clockwork-cwu50.c every successful enable call performs
  exactly, in order: the exit-sleep-mode command, a wait of 120 ms, the display-on
  command, a wait of 10 ms (within the 10 to 20 ms of the specification), and the
  tearing-signal-on command in vblank mode; each command succeeded. In
  panel-cw-cwu50.c every successful enable call performs exactly: a wait of 120 ms,
  the display-on command, a wait of 20 ms, and the tearing-signal-on command in vblank
  mode; the exit-sleep-mode command is not part of enable there (it ends that driver's
  init sequence, inside prepare).
\<close>

theorem enable_steps:
  fixes sc :: "clockwork_cwu50_panel world" and sw :: "cw_cwu50_panel world"
  shows
  "(fst (clockwork_cwu50_enable env sc) = 0 \<longrightarrow>
        trace (snd (clockwork_cwu50_enable env sc))
          = trace sc @ emitted sc (snd (clockwork_cwu50_enable env sc))
      \<and> map fst (emitted sc (snd (clockwork_cwu50_enable env sc)))
          = [Dcs_exit_sleep_mode (dsi (ctx sc)), Msleep 120,
             Dcs_set_display_on (dsi (ctx sc)), Msleep 10,
             Dcs_set_tear_on (dsi (ctx sc)) MIPI_DSI_DCS_TEAR_MODE_VBLANK]
      \<and> spec_enable_steps (dsi (ctx sc))
            (map fst (emitted sc (snd (clockwork_cwu50_enable env sc))))
      \<and> list_all (\<lambda>e. 0 \<le> snd e) (emitted sc (snd (clockwork_cwu50_enable env sc))))
   \<and> (fst (cw_cwu50_enable env' sw) = 0 \<longrightarrow>
        trace (snd (cw_cwu50_enable env' sw))
          = trace sw @ emitted sw (snd (cw_cwu50_enable env' sw))
      \<and> map fst (emitted sw (snd (cw_cwu50_enable env' sw)))
          = [Msleep 120, Dcs_set_display_on (dsi (ctx sw)), Msleep 20,
             Dcs_set_tear_on (dsi (ctx sw)) MIPI_DSI_DCS_TEAR_MODE_VBLANK]
      \<and> list_all (\<lambda>e. 0 \<le> snd e) (emitted sw (snd (cw_cwu50_enable env' sw))))
   \<and> (\<not> prepared (ctx sw) \<and> fst (cw_cwu50_init_sequence tbl env'' sw) = 0 \<longrightarrow>
        emitted sw (snd (cw_cwu50_init_sequence tbl env'' sw)) \<noteq> []
      \<and> fst (last (emitted sw (snd (cw_cwu50_init_sequence tbl env'' sw))))
          = Dcs_exit_sleep_mode (dsi (ctx sw)))"
proof (intro conjI impI)
  define res where "res = clockwork_cwu50_enable env sc"
  assume ok: "fst (clockwork_cwu50_enable env sc) = 0"
  from res_def have "trace (snd res) = trace sc @ emitted sc (snd res)
      \<and> map fst (emitted sc (snd res))
          = [Dcs_exit_sleep_mode (dsi (ctx sc)), Msleep 120,
             Dcs_set_display_on (dsi (ctx sc)), Msleep 10,
             Dcs_set_tear_on (dsi (ctx sc)) MIPI_DSI_DCS_TEAR_MODE_VBLANK]
      \<and> list_all (\<lambda>e. 0 \<le> snd e) (emitted sc (snd res))"
    by (cases rule: clockwork_enable_cases) (use ok in \<open>simp_all add: res_def emitted_def\<close>)
  then show "trace (snd (clockwork_cwu50_enable env sc))
          = trace sc @ emitted sc (snd (clockwork_cwu50_enable env sc))"
    and "map fst (emitted sc (snd (clockwork_cwu50_enable env sc)))
          = [Dcs_exit_sleep_mode (dsi (ctx sc)), Msleep 120,
             Dcs_set_display_on (dsi (ctx sc)), Msleep 10,
             Dcs_set_tear_on (dsi (ctx sc)) MIPI_DSI_DCS_TEAR_MODE_VBLANK]"
    and "spec_enable_steps (dsi (ctx sc))
            (map fst (emitted sc (snd (clockwork_cwu50_enable env sc))))"
    and "list_all (\<lambda>e. 0 \<le> snd e) (emitted sc (snd (clockwork_cwu50_enable env sc)))"
    by (simp_all add: res_def spec_enable_steps_def waits_at_least_ms_def waits_between_ms_def)
next
  define res where "res = cw_cwu50_enable env' sw"
  assume ok: "fst (cw_cwu50_enable env' sw) = 0"
  from res_def have "trace (snd res) = trace sw @ emitted sw (snd res)
      \<and> map fst (emitted sw (snd res))
          = [Msleep 120, Dcs_set_display_on (dsi (ctx sw)), Msleep 20,
             Dcs_set_tear_on (dsi (ctx sw)) MIPI_DSI_DCS_TEAR_MODE_VBLANK]
      \<and> list_all (\<lambda>e. 0 \<le> snd e) (emitted sw (snd res))"
    by (cases rule: cw_enable_cases) (use ok in \<open>simp_all add: res_def emitted_def\<close>)
  then show "trace (snd (cw_cwu50_enable env' sw))
          = trace sw @ emitted sw (snd (cw_cwu50_enable env' sw))"
    and "map fst (emitted sw (snd (cw_cwu50_enable env' sw)))
          = [Msleep 120, Dcs_set_display_on (dsi (ctx sw)), Msleep 20,
             Dcs_set_tear_on (dsi (ctx sw)) MIPI_DSI_DCS_TEAR_MODE_VBLANK]"
    and "list_all (\<lambda>e. 0 \<le> snd e) (emitted sw (snd (cw_cwu50_enable env' sw)))"
    by (simp_all add: res_def)
next
  define res where "res = cw_cwu50_init_sequence tbl env'' sw"
  assume h: "\<not> prepared (ctx sw) \<and> fst (cw_cwu50_init_sequence tbl env'' sw) = 0"
  then have np: "\<not> prepared (ctx sw)" and ok: "fst res = 0"
    by (simp_all add: res_def)
  from res_def np have "emitted sw (snd res) \<noteq> []
      \<and> fst (last (emitted sw (snd res))) = Dcs_exit_sleep_mode (dsi (ctx sw))"
  proof (cases rule: cw_init_sequence_cases)
    case (completed r)
    from completed(6) have "last (emitted sw (snd res)) = (Dcs_exit_sleep_mode (dsi (ctx sw)), r)"
      by (metis last_snoc)
    with completed(6) show ?thesis by (metis fst_conv snoc_eq_iff_butlast)
  qed (use ok in simp_all)
  then show "emitted sw (snd (cw_cwu50_init_sequence tbl env'' sw)) \<noteq> []"
    and "fst (last (emitted sw (snd (cw_cwu50_init_sequence tbl env'' sw))))
          = Dcs_exit_sleep_mode (dsi (ctx sw))"
    by (simp_all add: res_def)
qed

theorem enable_steps_witness:
  "fst (clockwork_cwu50_enable env_ok clockwork_prepared_once) = 0
   \<and> spec_enable_steps (dsi (ctx clockwork_prepared_once))
        (map fst (emitted clockwork_prepared_once
           (snd (clockwork_cwu50_enable env_ok clockwork_prepared_once))))
   \<and> fst (cw_cwu50_enable env_ok cw_prepared) = 0
   \<and> map fst (emitted cw_prepared (snd (cw_cwu50_enable env_ok cw_prepared)))
        = [Msleep 120, Dcs_set_display_on (dsi (ctx cw_prepared)), Msleep 20,
           Dcs_set_tear_on (dsi (ctx cw_prepared)) MIPI_DSI_DCS_TEAR_MODE_VBLANK]
   \<and> \<not> prepared (ctx cw_boot)
   \<and> fst (cw_cwu50_init_sequence cw_cwu50_panel_init_cmds env_ok cw_boot) = 0
   \<and> fst (last (emitted cw_boot
          (snd (cw_cwu50_init_sequence cw_cwu50_panel_init_cmds env_ok cw_boot))))
        = Dcs_exit_sleep_mode (dsi (ctx cw_boot))"
proof -
  have a: "fst (clockwork_cwu50_enable env_ok clockwork_prepared_once) = 0"
    and b: "fst (cw_cwu50_enable env_ok cw_prepared) = 0"
    by (simp_all add: enable_env_ok)
  note t = enable_steps [where env = env_ok and sc = clockwork_prepared_once,
      THEN conjunct1, rule_format, OF a]
  note u = enable_steps [where env' = env_ok and sw = cw_prepared,
      THEN conjunct2, THEN conjunct1, rule_format, OF b]
  have np: "\<not> prepared (ctx cw_boot)" by (simp add: ctx_boot cw_handle_def)
  have c: "fst (cw_cwu50_init_sequence cw_cwu50_panel_init_cmds env_ok cw_boot) = 0"
    by (simp add: cw_init_env_ok [OF np])
  note v = enable_steps [where env'' = env_ok and sw = cw_boot
      and tbl = cw_cwu50_panel_init_cmds,
      THEN conjunct2, THEN conjunct2, rule_format, OF conjI [OF np c]]
  from a b t u np c v show ?thesis by blast
qed

theorem enable_steps_counterexample:
  "fst (cw_cwu50_enable env_ok cw_prepared) = 0
   \<and> \<not> spec_enable_steps (dsi (ctx cw_prepared))
        (map fst (emitted cw_prepared (snd (cw_cwu50_enable env_ok cw_prepared))))
   \<and> map fst (emitted cw_prepared (snd (cw_cwu50_enable env_ok cw_prepared)))
        = [Msleep 120, Dcs_set_display_on (Dsi 0), Msleep 20,
           Dcs_set_tear_on (Dsi 0) MIPI_DSI_DCS_TEAR_MODE_VBLANK]"
  by (simp add: enable_env_ok emitted_def spec_enable_steps_def ctx_boot cw_handle_def)


subsection \<open>Disable\<close>

text \<open>
  C7, as amended. In panel-clockwork-cwu50.c every successful disable call performs
  exactly, in order: the display-off command, a wait of 50 ms, the enter-sleep-mode
  command, and a wait of 100 ms; both commands succeeded. In panel-cw-cwu50.c every
  disable call performs exactly one operation, the display-off command, and returns
  what that command returned (the enter-sleep-mode command and the delays are part
  of that driver's unprepare).
\<close>

theorem disable_steps:
  fixes sc :: "clockwork_cwu50_panel world" and sw :: "cw_cwu50_panel world"
  shows
  "(fst (clockwork_cwu50_disable env sc) = 0 \<longrightarrow>
        trace (snd (clockwork_cwu50_disable env sc))
          = trace sc @ emitted sc (snd (clockwork_cwu50_disable env sc))
      \<and> map fst (emitted sc (snd (clockwork_cwu50_disable env sc)))
          = [Dcs_set_display_off (dsi (ctx sc)), Msleep 50,
             Dcs_enter_sleep_mode (dsi (ctx sc)), Msleep 100]
      \<and> spec_disable_steps (dsi (ctx sc))
            (map fst (emitted sc (snd (clockwork_cwu50_disable env sc))))
      \<and> list_all (\<lambda>e. 0 \<le> snd e) (emitted sc (snd (clockwork_cwu50_disable env sc))))
   \<and> trace (snd (cw_cwu50_disable env' sw))
        = trace sw @ emitted sw (snd (cw_cwu50_disable env' sw))
   \<and> emitted sw (snd (cw_cwu50_disable env' sw))
        = [(Dcs_set_display_off (dsi (ctx sw)), fst (cw_cwu50_disable env' sw))]
   \<and> (prepared (ctx sw) \<longrightarrow>
        take 4 (map fst (emitted sw (snd (cw_cwu50_unprepare env'' sw))))
          = [Dcs_set_display_off (dsi (ctx sw)), Msleep 20,
             Dcs_enter_sleep_mode (dsi (ctx sw)), Msleep 120])"
proof (intro conjI impI)
  define res where "res = clockwork_cwu50_disable env sc"
  assume ok: "fst (clockwork_cwu50_disable env sc) = 0"
  from res_def have "trace (snd res) = trace sc @ emitted sc (snd res)
      \<and> map fst (emitted sc (snd res))
          = [Dcs_set_display_off (dsi (ctx sc)), Msleep 50,
             Dcs_enter_sleep_mode (dsi (ctx sc)), Msleep 100]
      \<and> list_all (\<lambda>e. 0 \<le> snd e) (emitted sc (snd res))"
    by (cases rule: clockwork_disable_cases) (use ok in \<open>simp_all add: res_def emitted_def\<close>)
  then show "trace (snd (clockwork_cwu50_disable env sc))
          = trace sc @ emitted sc (snd (clockwork_cwu50_disable env sc))"
    and "map fst (emitted sc (snd (clockwork_cwu50_disable env sc)))
          = [Dcs_set_display_off (dsi (ctx sc)), Msleep 50,
             Dcs_enter_sleep_mode (dsi (ctx sc)), Msleep 100]"
    and "spec_disable_steps (dsi (ctx sc))
            (map fst (emitted sc (snd (clockwork_cwu50_disable env sc))))"
    and "list_all (\<lambda>e. 0 \<le> snd e) (emitted sc (snd (clockwork_cwu50_disable env sc)))"
    by (simp_all add: res_def spec_disable_steps_def waits_at_least_ms_def)
next
  show "trace (snd (cw_cwu50_disable env' sw))
        = trace sw @ emitted sw (snd (cw_cwu50_disable env' sw))"
    and "emitted sw (snd (cw_cwu50_disable env' sw))
        = [(Dcs_set_display_off (dsi (ctx sw)), fst (cw_cwu50_disable env' sw))]"
    by (simp_all add: cw_disable_run emitted_def)
next
  assume "prepared (ctx sw)"
  then show "take 4 (map fst (emitted sw (snd (cw_cwu50_unprepare env'' sw))))
          = [Dcs_set_display_off (dsi (ctx sw)), Msleep 20,
             Dcs_enter_sleep_mode (dsi (ctx sw)), Msleep 120]"
    by (simp add: cw_cwu50_unprepare_def call_defs world_simps Let_def split_beta emitted_def)
qed

theorem disable_steps_witness:
  "fst (clockwork_cwu50_disable env_ok clockwork_prepared_once) = 0
   \<and> spec_disable_steps (dsi (ctx clockwork_prepared_once))
        (map fst (emitted clockwork_prepared_once
           (snd (clockwork_cwu50_disable env_ok clockwork_prepared_once))))
   \<and> emitted cw_prepared (snd (cw_cwu50_disable env_ok cw_prepared))
        = [(Dcs_set_display_off (dsi (ctx cw_prepared)),
            fst (cw_cwu50_disable env_ok cw_prepared))]
   \<and> prepared (ctx cw_prepared)
   \<and> take 4 (map fst (emitted cw_prepared (snd (cw_cwu50_unprepare env_ok cw_prepared))))
        = [Dcs_set_display_off (dsi (ctx cw_prepared)), Msleep 20,
           Dcs_enter_sleep_mode (dsi (ctx cw_prepared)), Msleep 120]"
proof -
  have a: "fst (clockwork_cwu50_disable env_ok clockwork_prepared_once) = 0"
    by (simp add: disable_env_ok)
  note t = disable_steps [where env = env_ok and sc = clockwork_prepared_once,
      THEN conjunct1, rule_format, OF a]
  note u = disable_steps [where env' = env_ok and sw = cw_prepared,
      THEN conjunct2, THEN conjunct2, THEN conjunct1]
  have p: "prepared (ctx cw_prepared)" by (simp add: ctx_boot)
  note v = disable_steps [where env'' = env_ok and sw = cw_prepared,
      THEN conjunct2, THEN conjunct2, THEN conjunct2, rule_format, OF p]
  from a t u p v show ?thesis by blast
qed

theorem disable_steps_counterexample:
  "fst (cw_cwu50_disable env_ok cw_prepared) = 0
   \<and> \<not> spec_disable_steps (dsi (ctx cw_prepared))
        (map fst (emitted cw_prepared (snd (cw_cwu50_disable env_ok cw_prepared))))
   \<and> map fst (emitted cw_prepared (snd (cw_cwu50_disable env_ok cw_prepared)))
        = [Dcs_set_display_off (Dsi 0)]"
  by (simp add: disable_env_ok emitted_def spec_disable_steps_def ctx_boot cw_handle_def)


subsection \<open>Enable is forward-only\<close>

text \<open>
  C8. Enable is forward-only on failure. In panel-clockwork-cwu50.c, for every enable
  call in which the exit-sleep-mode command succeeds and the display-on command fails,
  the call returns the error of the display-on command and its hardware actions are
  exactly exit sleep mode, the 120 ms wait and the failed display on: nothing follows,
  in particular no enter-sleep-mode command, no regulator operation and no GPIO
  operation, and the handle is unchanged. In panel-cw-cwu50.c, whose enable issues no
  exit-sleep-mode command, a failed display-on command likewise ends the call: the
  error is returned and the actions are exactly the 120 ms wait and the failed
  display on.
\<close>

theorem enable_forward_only:
  fixes sc :: "clockwork_cwu50_panel world" and sw :: "cw_cwu50_panel world"
  shows
  "((Dcs_exit_sleep_mode (dsi (ctx sc)), r1) \<in> set (emitted sc (snd (clockwork_cwu50_enable env sc)))
      \<and> 0 \<le> r1
      \<and> (Dcs_set_display_on (dsi (ctx sc)), r2) \<in> set (emitted sc (snd (clockwork_cwu50_enable env sc)))
      \<and> r2 < 0 \<longrightarrow>
        fst (clockwork_cwu50_enable env sc) = r2
      \<and> trace (snd (clockwork_cwu50_enable env sc))
          = trace sc @ emitted sc (snd (clockwork_cwu50_enable env sc))
      \<and> emitted sc (snd (clockwork_cwu50_enable env sc))
          = [(Dcs_exit_sleep_mode (dsi (ctx sc)), r1), (Msleep 120, 0),
             (Dcs_set_display_on (dsi (ctx sc)), r2)]
      \<and> \<not> list_ex is_power_op (map fst (emitted sc (snd (clockwork_cwu50_enable env sc))))
      \<and> Dcs_enter_sleep_mode (dsi (ctx sc))
           \<notin> set (map fst (emitted sc (snd (clockwork_cwu50_enable env sc))))
      \<and> ctx (snd (clockwork_cwu50_enable env sc)) = ctx sc)
   \<and> ((Dcs_set_display_on (dsi (ctx sw)), r2') \<in> set (emitted sw (snd (cw_cwu50_enable env' sw)))
      \<and> r2' < 0 \<longrightarrow>
        fst (cw_cwu50_enable env' sw) = r2'
      \<and> trace (snd (cw_cwu50_enable env' sw))
          = trace sw @ emitted sw (snd (cw_cwu50_enable env' sw))
      \<and> emitted sw (snd (cw_cwu50_enable env' sw))
          = [(Msleep 120, 0), (Dcs_set_display_on (dsi (ctx sw)), r2')]
      \<and> ctx (snd (cw_cwu50_enable env' sw)) = ctx sw)"
proof (intro conjI impI)
  define res where "res = clockwork_cwu50_enable env sc"
  assume h: "(Dcs_exit_sleep_mode (dsi (ctx sc)), r1) \<in> set (emitted sc (snd (clockwork_cwu50_enable env sc)))
      \<and> 0 \<le> r1
      \<and> (Dcs_set_display_on (dsi (ctx sc)), r2) \<in> set (emitted sc (snd (clockwork_cwu50_enable env sc)))
      \<and> r2 < 0"
  from res_def have "fst res = r2
      \<and> trace (snd res) = trace sc @ emitted sc (snd res)
      \<and> emitted sc (snd res)
          = [(Dcs_exit_sleep_mode (dsi (ctx sc)), r1), (Msleep 120, 0),
             (Dcs_set_display_on (dsi (ctx sc)), r2)]
      \<and> ctx (snd res) = ctx sc"
    by (cases rule: clockwork_enable_cases)
       (use h in \<open>auto simp add: res_def emitted_def\<close>)
  then show "fst (clockwork_cwu50_enable env sc) = r2"
    and "trace (snd (clockwork_cwu50_enable env sc))
          = trace sc @ emitted sc (snd (clockwork_cwu50_enable env sc))"
    and "emitted sc (snd (clockwork_cwu50_enable env sc))
          = [(Dcs_exit_sleep_mode (dsi (ctx sc)), r1), (Msleep 120, 0),
             (Dcs_set_display_on (dsi (ctx sc)), r2)]"
    and "\<not> list_ex is_power_op (map fst (emitted sc (snd (clockwork_cwu50_enable env sc))))"
    and "Dcs_enter_sleep_mode (dsi (ctx sc))
           \<notin> set (map fst (emitted sc (snd (clockwork_cwu50_enable env sc))))"
    and "ctx (snd (clockwork_cwu50_enable env sc)) = ctx sc"
    by (simp_all add: res_def)
next
  define res where "res = cw_cwu50_enable env' sw"
  assume h: "(Dcs_set_display_on (dsi (ctx sw)), r2') \<in> set (emitted sw (snd (cw_cwu50_enable env' sw)))
      \<and> r2' < 0"
  from res_def have "fst res = r2'
      \<and> trace (snd res) = trace sw @ emitted sw (snd res)
      \<and> emitted sw (snd res) = [(Msleep 120, 0), (Dcs_set_display_on (dsi (ctx sw)), r2')]
      \<and> ctx (snd res) = ctx sw"
    by (cases rule: cw_enable_cases)
       (use h in \<open>auto simp add: res_def emitted_def\<close>)
  then show "fst (cw_cwu50_enable env' sw) = r2'"
    and "trace (snd (cw_cwu50_enable env' sw))
          = trace sw @ emitted sw (snd (cw_cwu50_enable env' sw))"
    and "emitted sw (snd (cw_cwu50_enable env' sw))
          = [(Msleep 120, 0), (Dcs_set_display_on (dsi (ctx sw)), r2')]"
    and "ctx (snd (cw_cwu50_enable env' sw)) = ctx sw"
    by (simp_all add: res_def)
qed

theorem enable_forward_only_witness:
  "(Dcs_exit_sleep_mode (dsi (ctx clockwork_boot)), 0)
      \<in> set (emitted clockwork_boot (snd (clockwork_cwu50_enable (env_fail_at 2 (- 5)) clockwork_boot)))
   \<and> (0::int) \<le> 0
   \<and> (Dcs_set_display_on (dsi (ctx clockwork_boot)), - 5)
      \<in> set (emitted clockwork_boot (snd (clockwork_cwu50_enable (env_fail_at 2 (- 5)) clockwork_boot)))
   \<and> (- 5 :: int) < 0
   \<and> fst (clockwork_cwu50_enable (env_fail_at 2 (- 5)) clockwork_boot) = - 5
   \<and> emitted clockwork_boot (snd (clockwork_cwu50_enable (env_fail_at 2 (- 5)) clockwork_boot))
        = [(Dcs_exit_sleep_mode (dsi (ctx clockwork_boot)), 0), (Msleep 120, 0),
           (Dcs_set_display_on (dsi (ctx clockwork_boot)), - 5)]
   \<and> (Dcs_set_display_on (dsi (ctx cw_prepared)), - 5)
      \<in> set (emitted cw_prepared (snd (cw_cwu50_enable (env_fail_at 1 (- 5)) cw_prepared)))
   \<and> fst (cw_cwu50_enable (env_fail_at 1 (- 5)) cw_prepared) = - 5
   \<and> emitted cw_prepared (snd (cw_cwu50_enable (env_fail_at 1 (- 5)) cw_prepared))
        = [(Msleep 120, 0), (Dcs_set_display_on (dsi (ctx cw_prepared)), - 5)]"
proof -
  have hc: "(Dcs_exit_sleep_mode (dsi (ctx clockwork_boot)), 0)
      \<in> set (emitted clockwork_boot (snd (clockwork_cwu50_enable (env_fail_at 2 (- 5)) clockwork_boot)))
   \<and> (0::int) \<le> 0
   \<and> (Dcs_set_display_on (dsi (ctx clockwork_boot)), - 5)
      \<in> set (emitted clockwork_boot (snd (clockwork_cwu50_enable (env_fail_at 2 (- 5)) clockwork_boot)))
   \<and> (- 5 :: int) < 0"
    by (simp add: clockwork_display_on_fails emitted_def trace_boot ctx_boot clockwork_handle_def)
  have hw: "(Dcs_set_display_on (dsi (ctx cw_prepared)), - 5)
      \<in> set (emitted cw_prepared (snd (cw_cwu50_enable (env_fail_at 1 (- 5)) cw_prepared)))
   \<and> (- 5 :: int) < 0"
    unfolding cw_display_on_fails
    by (simp add: emitted_def trace_boot ctx_boot cw_handle_def)
  note t = enable_forward_only [where env = "env_fail_at 2 (- 5)" and sc = clockwork_boot
      and ?r1.0 = 0 and ?r2.0 = "- 5", THEN conjunct1, rule_format, OF hc]
  note u = enable_forward_only [where env' = "env_fail_at 1 (- 5)" and sw = cw_prepared
      and r2' = "- 5", THEN conjunct2, rule_format, OF hw]
  from hc hw t u show ?thesis by blast
qed


subsection \<open>The two command tables\<close>

text \<open>
  C9. The initialization command tables of the two driver variants are identical as
  sequences: they have the same length, and at every index the (register, value) pair
  of the table in panel-clockwork-cwu50.c equals the pair of the table in
  panel-cw-cwu50.c.
\<close>

theorem init_cmd_tables_identical:
  "length clockwork_cwu50_panel_init_cmds = length cw_cwu50_panel_init_cmds
   \<and> (\<forall>i < length clockwork_cwu50_panel_init_cmds.
         clockwork_cwu50_panel_init_cmds ! i = cw_cwu50_panel_init_cmds ! i)"
proof -
  have "clockwork_cwu50_panel_init_cmds = cw_cwu50_panel_init_cmds"
    unfolding clockwork_cwu50_panel_init_cmds_def cw_cwu50_panel_init_cmds_def by (rule refl)
  then show ?thesis by simp
qed

theorem init_cmd_tables_identical_witness:
  "(8::nat) < length clockwork_cwu50_panel_init_cmds
   \<and> clockwork_cwu50_panel_init_cmds ! 8 = cw_cwu50_panel_init_cmds ! 8"
proof -
  have n: "(8::nat) < length clockwork_cwu50_panel_init_cmds"
    by (simp add: clockwork_cwu50_panel_init_cmds_def)
  with init_cmd_tables_identical show ?thesis by blast
qed


subsection \<open>Who touches the handle\<close>

text \<open>
  C10. Enable and disable leave every field of the panel handle unchanged, in both
  drivers. In panel-cw-cwu50.c they do not read the \<open>prepared\<close> flag either: their
  return value and trace are the same whatever the flag holds. The reset and
  init-sequence functions do not change the handle. Only prepare sets the flag
  (exactly when it returns 0, and it never clears a set flag), only unprepare clears
  it (it always ends clear), and neither changes any other field.
\<close>

theorem handle_frame:
  fixes sc :: "clockwork_cwu50_panel world" and sw :: "cw_cwu50_panel world"
  shows
  "ctx (snd (clockwork_cwu50_enable env sc)) = ctx sc
   \<and> ctx (snd (clockwork_cwu50_disable env sc)) = ctx sc
   \<and> ctx (snd (cw_cwu50_enable env sw)) = ctx sw
   \<and> ctx (snd (cw_cwu50_disable env sw)) = ctx sw
   \<and> fst (cw_cwu50_enable env (sw\<lparr>ctx := (ctx sw)\<lparr>prepared := b\<rparr>\<rparr>)) = fst (cw_cwu50_enable env sw)
   \<and> trace (snd (cw_cwu50_enable env (sw\<lparr>ctx := (ctx sw)\<lparr>prepared := b\<rparr>\<rparr>)))
        = trace (snd (cw_cwu50_enable env sw))
   \<and> fst (cw_cwu50_disable env (sw\<lparr>ctx := (ctx sw)\<lparr>prepared := b\<rparr>\<rparr>)) = fst (cw_cwu50_disable env sw)
   \<and> trace (snd (cw_cwu50_disable env (sw\<lparr>ctx := (ctx sw)\<lparr>prepared := b\<rparr>\<rparr>)))
        = trace (snd (cw_cwu50_disable env sw))
   \<and> ctx (cw_cwu50_reset sw) = ctx sw
   \<and> ctx (snd (cw_cwu50_init_sequence tbl env sw)) = ctx sw
   \<and> \<not> prepared (ctx (snd (cw_cwu50_unprepare env sw)))
   \<and> (prepared (ctx sw) \<longrightarrow> prepared (ctx (snd (cw_cwu50_prepare tbl env sw))))
   \<and> (prepared (ctx (snd (cw_cwu50_prepare tbl env sw))) \<and> \<not> prepared (ctx sw) \<longrightarrow>
        fst (cw_cwu50_prepare tbl env sw) = 0)
   \<and> (fst (cw_cwu50_prepare tbl env sw) = 0 \<longrightarrow> prepared (ctx (snd (cw_cwu50_prepare tbl env sw))))
   \<and> ctx (snd (cw_cwu50_prepare tbl env sw))
        = (ctx sw)\<lparr>prepared := prepared (ctx (snd (cw_cwu50_prepare tbl env sw)))\<rparr>
   \<and> ctx (snd (cw_cwu50_unprepare env sw)) = (ctx sw)\<lparr>prepared := False\<rparr>"
proof -
  have ed: "ctx (snd (clockwork_cwu50_enable env sc)) = ctx sc"
    "ctx (snd (clockwork_cwu50_disable env sc)) = ctx sc"
    "ctx (snd (cw_cwu50_enable env sw)) = ctx sw"
    "ctx (snd (cw_cwu50_disable env sw)) = ctx sw"
    by (rule enable_disable_ctx)+
  have rd: "fst (cw_cwu50_enable env (sw\<lparr>ctx := (ctx sw)\<lparr>prepared := b\<rparr>\<rparr>)) = fst (cw_cwu50_enable env sw)"
    "trace (snd (cw_cwu50_enable env (sw\<lparr>ctx := (ctx sw)\<lparr>prepared := b\<rparr>\<rparr>)))
        = trace (snd (cw_cwu50_enable env sw))"
    "fst (cw_cwu50_disable env (sw\<lparr>ctx := (ctx sw)\<lparr>prepared := b\<rparr>\<rparr>)) = fst (cw_cwu50_disable env sw)"
    "trace (snd (cw_cwu50_disable env (sw\<lparr>ctx := (ctx sw)\<lparr>prepared := b\<rparr>\<rparr>)))
        = trace (snd (cw_cwu50_disable env sw))"
    by (simp_all add: cw_cwu50_enable_def cw_cwu50_disable_def call_defs world_simps split_beta)
  have rs: "ctx (cw_cwu50_reset sw) = ctx sw"
    by (simp add: cw_cwu50_reset_def call_defs world_simps Let_def)
  define ri where "ri = cw_cwu50_init_sequence tbl env sw"
  have "ctx (snd ri) = ctx sw"
  proof (cases "prepared (ctx sw)")
    case True
    then show ?thesis by (simp add: ri_def cw_cwu50_init_sequence_def)
  next
    case False
    with ri_def show ?thesis by (cases rule: cw_init_sequence_cases) simp_all
  qed
  then have sq: "ctx (snd (cw_cwu50_init_sequence tbl env sw)) = ctx sw"
    by (simp add: ri_def)
  have un: "ctx (snd (cw_cwu50_unprepare env sw)) = (ctx sw)\<lparr>prepared := False\<rparr>"
    by (simp add: cw_cwu50_unprepare_def call_defs world_simps Let_def split_beta)
  define rp where "rp = cw_cwu50_prepare tbl env sw"
  from rp_def have "(prepared (ctx sw) \<longrightarrow> prepared (ctx (snd rp)))
    \<and> (prepared (ctx (snd rp)) \<and> \<not> prepared (ctx sw) \<longrightarrow> fst rp = 0)
    \<and> (fst rp = 0 \<longrightarrow> prepared (ctx (snd rp)))
    \<and> ctx (snd rp) = (ctx sw)\<lparr>prepared := prepared (ctx (snd rp))\<rparr>"
    by (cases rule: cw_prepare_cases) simp_all
  then have pr: "prepared (ctx sw) \<longrightarrow> prepared (ctx (snd (cw_cwu50_prepare tbl env sw)))"
    "prepared (ctx (snd (cw_cwu50_prepare tbl env sw))) \<and> \<not> prepared (ctx sw) \<longrightarrow>
        fst (cw_cwu50_prepare tbl env sw) = 0"
    "fst (cw_cwu50_prepare tbl env sw) = 0 \<longrightarrow> prepared (ctx (snd (cw_cwu50_prepare tbl env sw)))"
    "ctx (snd (cw_cwu50_prepare tbl env sw))
        = (ctx sw)\<lparr>prepared := prepared (ctx (snd (cw_cwu50_prepare tbl env sw)))\<rparr>"
    by (simp_all add: rp_def)
  from un have nu: "\<not> prepared (ctx (snd (cw_cwu50_unprepare env sw)))" by simp
  from ed rd rs sq un nu pr show ?thesis by (intro conjI)
qed


theorem handle_frame_witness:
  "prepared (ctx cw_prepared)
   \<and> prepared (ctx (snd (cw_cwu50_prepare cw_cwu50_panel_init_cmds env_ok cw_prepared)))
   \<and> \<not> prepared (ctx cw_boot)
   \<and> prepared (ctx (snd (cw_cwu50_prepare cw_cwu50_panel_init_cmds env_ok cw_boot)))
   \<and> fst (cw_cwu50_prepare cw_cwu50_panel_init_cmds env_ok cw_boot) = 0
   \<and> ctx (snd (cw_cwu50_enable env_ok cw_prepared)) = ctx cw_prepared
   \<and> ctx (snd (cw_cwu50_disable env_ok cw_prepared)) = ctx cw_prepared
   \<and> \<not> prepared (ctx (snd (cw_cwu50_unprepare env_ok cw_prepared)))"
proof -
  have p: "prepared (ctx cw_prepared)" by (simp add: ctx_boot)
  have np: "\<not> prepared (ctx cw_boot)" by (simp add: ctx_boot cw_handle_def)
  have ok: "fst (cw_cwu50_prepare cw_cwu50_panel_init_cmds env_ok cw_boot) = 0"
    by (simp add: cw_prepare_env_ok [OF np])
  note t = handle_frame [where env = env_ok and sw = cw_prepared
      and tbl = cw_cwu50_panel_init_cmds]
  note u = handle_frame [where env = env_ok and sw = cw_boot
      and tbl = cw_cwu50_panel_init_cmds]
  from p np ok t u show ?thesis by blast
qed

end
